theory Spec2Isabelle
  imports Main
begin

section \<open>Python values, errors and the string operations the manager uses\<close>

text \<open>
  The contents manager of \<^verbatim>\<open>eginotebooks/manager.py\<close> works on JSON-like models:
  dictionaries with string keys whose values are strings, numbers, booleans, \<^verbatim>\<open>None\<close>,
  time stamps, lists and dictionaries. A dictionary is an association list in insertion
  order (Python keeps that order, and the root listing iterates over it).

  A time stamp (\<^verbatim>\<open>datetime\<close>) is \<open>PTime\<close> of its kind and an integer clock value.
  Python has two kinds of \<^verbatim>\<open>datetime\<close>: offset-naive ones (a wall-clock reading without
  time zone) and offset-aware ones (an instant, whatever the zone it is written in). Two
  time stamps of the same kind are ordered by their clock value; one of each kind are
  unequal and cannot be ordered.

  The values are trees: an object reached twice (the same dictionary stored under two
  list positions) is not modelled, so an in-place assignment is the update of the value
  that holds it.
\<close>

datatype awareness = Naive | Aware

datatype pyval =
    PNone
  | PBool bool
  | PInt int
  | PStr string
  | PTime awareness int
  | PList "pyval list"
  | PDict "(string \<times> pyval) list"

text \<open>Every \<^verbatim>\<open>raise\<close> of the source and of the Python operations it uses is a value.\<close>

datatype error =
    ValueError string
  | KeyError string
  | TypeError
  | AttributeError string
  | IndexError
  | BackendError string

type_synonym kwargs = "(string \<times> pyval) list"

abbreviation sep :: char where
  "sep \<equiv> CHR ''/''"

subsection \<open>Dictionaries\<close>

text \<open>\<^verbatim>\<open>d[k] = v\<close>: an existing key keeps its position, a new key goes last.\<close>

fun dict_set :: "(string \<times> 'a) list \<Rightarrow> string \<Rightarrow> 'a \<Rightarrow> (string \<times> 'a) list" where
  "dict_set [] k v = [(k, v)]"
| "dict_set ((k', v') # d) k v = (if k' = k then (k, v) # d else (k', v') # dict_set d k v)"

text \<open>\<^verbatim>\<open>d.get(k)\<close> on a dictionary, with \<open>None\<close> for Python's \<^verbatim>\<open>None\<close> default.\<close>

definition dict_get :: "(string \<times> 'a) list \<Rightarrow> string \<Rightarrow> 'a option" where
  "dict_get d k = map_of d k"

text \<open>\<^verbatim>\<open>x[k]\<close> with a string key: only a dictionary takes one.\<close>

fun py_getitem :: "pyval \<Rightarrow> string \<Rightarrow> error + pyval" where
  "py_getitem (PDict d) k = (case dict_get d k of None \<Rightarrow> Inl (KeyError k) | Some v \<Rightarrow> Inr v)"
| "py_getitem _ k = Inl TypeError"

text \<open>\<^verbatim>\<open>x[k] = v\<close> with a string key.\<close>

fun py_setitem :: "pyval \<Rightarrow> string \<Rightarrow> pyval \<Rightarrow> error + pyval" where
  "py_setitem (PDict d) k v = Inr (PDict (dict_set d k v))"
| "py_setitem _ k v = Inl TypeError"

text \<open>Truth value of an object, as \<^verbatim>\<open>if x\<close> and \<^verbatim>\<open>and\<close> test it.\<close>

fun py_truthy :: "pyval \<Rightarrow> bool" where
  "py_truthy PNone = False"
| "py_truthy (PBool b) = b"
| "py_truthy (PInt n) = (n \<noteq> 0)"
| "py_truthy (PStr s) = (s \<noteq> [])"
| "py_truthy (PTime a t) = True"
| "py_truthy (PList xs) = (xs \<noteq> [])"
| "py_truthy (PDict d) = (d \<noteq> [])"

subsection \<open>Strings\<close>

text \<open>\<^verbatim>\<open>s.startswith(p)\<close> and \<^verbatim>\<open>p in s\<close> on strings.\<close>

fun starts_with :: "string \<Rightarrow> string \<Rightarrow> bool" where
  "starts_with s [] = True"
| "starts_with [] (c # p) = False"
| "starts_with (x # s) (c # p) = (x = c \<and> starts_with s p)"

fun contains_str :: "string \<Rightarrow> string \<Rightarrow> bool" where
  "contains_str [] p = (p = [])"
| "contains_str (x # s) p = (starts_with (x # s) p \<or> contains_str s p)"

text \<open>\<^verbatim>\<open>s.lstrip("/")\<close>, \<^verbatim>\<open>s.rstrip("/")\<close> and \<^verbatim>\<open>s.strip("/")\<close>.\<close>

definition lstrip_sep :: "string \<Rightarrow> string" where
  "lstrip_sep s = dropWhile (\<lambda>c. c = sep) s"

definition rstrip_sep :: "string \<Rightarrow> string" where
  "rstrip_sep s = rev (dropWhile (\<lambda>c. c = sep) (rev s))"

definition strip_sep :: "string \<Rightarrow> string" where
  "strip_sep s = rstrip_sep (lstrip_sep s)"

text \<open>
  \<^verbatim>\<open>s.split("/")\<close>: the pieces between the separators; the empty string gives one
  empty piece. The recursive call never returns the empty list, so the last branch of the
  \<open>case\<close> is not reached.
\<close>

fun split_sep :: "string \<Rightarrow> string list" where
  "split_sep [] = [[]]"
| "split_sep (c # cs) =
     (if c = sep then [] # split_sep cs
      else (case split_sep cs of x # xs \<Rightarrow> (c # x) # xs | [] \<Rightarrow> [[c]]))"

text \<open>\<^verbatim>\<open>"/".join(xs)\<close>.\<close>

fun join_sep :: "string list \<Rightarrow> string" where
  "join_sep [] = []"
| "join_sep [x] = x"
| "join_sep (x # y # ys) = x @ sep # join_sep (y # ys)"

text \<open>
  \<^verbatim>\<open>os.path.join(a, b)\<close> of the POSIX path module, for two strings: an absolute
  second component replaces the first; otherwise the two are concatenated with one
  separator between them unless the first is empty or already ends in one.
\<close>

definition os_path_join :: "string \<Rightarrow> string \<Rightarrow> string" where
  "os_path_join a b =
     (if starts_with b [sep] then b
      else if a = [] \<or> starts_with (rev a) [sep] then a @ b
      else a @ sep # b)"

text \<open>\<^verbatim>\<open>xs.pop(0)\<close>: the first element and the list that stays.\<close>

fun py_pop0 :: "'a list \<Rightarrow> error + ('a \<times> 'a list)" where
  "py_pop0 [] = Inl IndexError"
| "py_pop0 (x # xs) = Inr (x, xs)"

section \<open>Path decomposition\<close>

text \<open>
  \<^verbatim>\<open>_split_path(path)\<close>: the sentinel (first segment), the rest of the path as a list
  and the path stripped of separators.
\<close>

definition split_path :: "string \<Rightarrow> error + (string \<times> string list \<times> string)" where
  "split_path path =
     (let path' = strip_sep path;
          list_path = split_sep path'
      in case py_pop0 list_path of
           Inl e \<Rightarrow> Inl e
         | Inr (sentinel, list_path') \<Rightarrow> Inr (sentinel, list_path', path'))"

section \<open>Ordering of values: \<^verbatim>\<open>max\<close> and \<^verbatim>\<open>min\<close>\<close>

text \<open>
  \<^verbatim>\<open>a == b\<close>, which never raises. Booleans and integers are equal as numbers
  (\<^verbatim>\<open>True\<close> is 1), strings and time stamps of the same kind by their value, lists
  element by element, dictionaries when they have the same keys with equal values, in
  whatever order. Values of different kinds are unequal, a naive and an aware time stamp
  included.
\<close>

fun py_eq :: "pyval \<Rightarrow> pyval \<Rightarrow> bool" where
  "py_eq PNone PNone = True"
| "py_eq (PBool a) (PBool b) = (a = b)"
| "py_eq (PBool a) (PInt n) = (of_bool a = n)"
| "py_eq (PInt m) (PBool b) = (m = of_bool b)"
| "py_eq (PInt m) (PInt n) = (m = n)"
| "py_eq (PStr s) (PStr t) = (s = t)"
| "py_eq (PTime a s) (PTime b t) = (a = b \<and> s = t)"
| "py_eq (PList xs) (PList ys) = list_all2 py_eq xs ys"
| "py_eq (PDict a) (PDict b) =
     (fst ` set a = fst ` set b \<and>
      (\<forall>(k, v) \<in> set a. case dict_get b k of None \<Rightarrow> False | Some v' \<Rightarrow> py_eq v v'))"
| "py_eq _ _ = False"

text \<open>\<^verbatim>\<open>s > t\<close> on strings: character by character, a proper extension is greater.\<close>

fun str_gt :: "string \<Rightarrow> string \<Rightarrow> bool" where
  "str_gt [] t = False"
| "str_gt (c # s) [] = True"
| "str_gt (c # s) (d # t) =
     ((of_char c :: nat) > of_char d \<or> (c = d \<and> str_gt s t))"

text \<open>
  \<^verbatim>\<open>a > b\<close>. Time stamps of the same kind are ordered by their clock value; a naive
  and an aware one raise \<^verbatim>\<open>TypeError\<close>. Integers and booleans are ordered as numbers,
  strings character by character, lists by the first pair of unequal elements or, when
  there is none, by their lengths. \<^verbatim>\<open>None\<close>, dictionaries and values of different
  kinds are not ordered: Python raises \<^verbatim>\<open>TypeError\<close>.
\<close>

fun py_gt :: "pyval \<Rightarrow> pyval \<Rightarrow> error + bool"
  and list_gt :: "pyval list \<Rightarrow> pyval list \<Rightarrow> error + bool" where
  "py_gt (PTime a s) (PTime b t) = (if a = b then Inr (s > t) else Inl TypeError)"
| "py_gt (PInt m) (PInt n) = Inr (m > n)"
| "py_gt (PInt m) (PBool b) = Inr (m > of_bool b)"
| "py_gt (PBool a) (PInt n) = Inr (of_bool a > n)"
| "py_gt (PBool a) (PBool b) = Inr (a \<and> \<not> b)"
| "py_gt (PStr s) (PStr t) = Inr (str_gt s t)"
| "py_gt (PList xs) (PList ys) = list_gt xs ys"
| "py_gt _ _ = Inl TypeError"
| "list_gt [] ys = Inr False"
| "list_gt (x # xs) [] = Inr True"
| "list_gt (x # xs) (y # ys) = (if py_eq x y then list_gt xs ys else py_gt x y)"

text \<open>\<^verbatim>\<open>a < b\<close>: the mirror image of \<^verbatim>\<open>b > a\<close> on all these values.\<close>

definition py_lt :: "pyval \<Rightarrow> pyval \<Rightarrow> error + bool" where
  "py_lt a b = py_gt b a"

text \<open>
  \<^verbatim>\<open>max(xs)\<close> keeps the first element and replaces it by each later one that is
  greater; \<^verbatim>\<open>min(xs)\<close> by each later one that is less. Both raise
  \<^verbatim>\<open>ValueError\<close> on an empty list and pass a \<^verbatim>\<open>TypeError\<close> of the comparison on.
\<close>

fun max_from :: "pyval \<Rightarrow> pyval list \<Rightarrow> error + pyval" where
  "max_from m [] = Inr m"
| "max_from m (x # xs) =
     (case py_gt x m of Inl e \<Rightarrow> Inl e | Inr b \<Rightarrow> max_from (if b then x else m) xs)"

fun min_from :: "pyval \<Rightarrow> pyval list \<Rightarrow> error + pyval" where
  "min_from m [] = Inr m"
| "min_from m (x # xs) =
     (case py_lt x m of Inl e \<Rightarrow> Inl e | Inr b \<Rightarrow> min_from (if b then x else m) xs)"

fun py_max :: "pyval list \<Rightarrow> error + pyval" where
  "py_max [] = Inl (ValueError ''max() arg is an empty sequence'')"
| "py_max (x # xs) = max_from x xs"

fun py_min :: "pyval list \<Rightarrow> error + pyval" where
  "py_min [] = Inl (ValueError ''min() arg is an empty sequence'')"
| "py_min (x # xs) = min_from x xs"

section \<open>The manager: mount table, backends and the world outside\<close>

text \<open>
  A mounted contents manager is an object: \<open>b_id\<close> is its identity (the source compares
  managers with \<^verbatim>\<open>!=\<close>, which for these objects is identity), \<open>b_class\<close> the class it
  was made from and \<open>b_attrs\<close> the attributes set on it after construction.
\<close>

record backend =
  b_id :: nat
  b_class :: string
  b_attrs :: "(string \<times> pyval) list"

text \<open>
  \<^verbatim>\<open>MixedContentsManager\<close>: the traits \<^verbatim>\<open>mixed_path\<close> and, filled by
  \<^verbatim>\<open>__init__\<close>, the dictionary \<^verbatim>\<open>self.managers\<close> from mount name to manager.
\<close>

record mixed_cm =
  mixed_path :: string
  managers :: "(string \<times> backend) list"

text \<open>One entry of the trait \<^verbatim>\<open>filesystem_scheme\<close>: keys \<^verbatim>\<open>root\<close>, \<^verbatim>\<open>class\<close>, \<^verbatim>\<open>config\<close>.\<close>

record scheme =
  root :: string
  cls :: string
  config :: "(string \<times> pyval) list"

text \<open>
  The mounted managers and the base class \<^verbatim>\<open>LargeFileManager\<close> are not part of the
  repository. Their operations are parameters: each takes the method name, the positional
  and the keyword arguments and the state of the world (file systems, remote stores), and
  returns a value or an error together with the new state of the world.
  \<open>instantiate\<close> stands for \<^verbatim>\<open>import_item(scheme["class"])\<close> followed by the call of the
  class; it can fail (an unknown class).
\<close>

record 'w env =
  backend_op :: "backend \<Rightarrow> string \<Rightarrow> pyval list \<Rightarrow> kwargs \<Rightarrow> 'w \<Rightarrow> (error + pyval) \<times> 'w"
  default_op :: "string \<Rightarrow> pyval list \<Rightarrow> kwargs \<Rightarrow> 'w \<Rightarrow> (error + pyval) \<times> 'w"
  instantiate :: "string \<Rightarrow> 'w \<Rightarrow> error option \<times> 'w"

text \<open>
  Modelled from the spec: the capability set of a backend (section 3 of the
  specification: directory, file and generic existence, hidden check, get, save, update,
  delete, the four checkpoint operations, rename), under the method names by which the
  source calls them, with \<^verbatim>\<open>rename_file\<close>, which the source calls as well. The classes
  that define these methods are outside the repository.
\<close>

definition contents_api :: "string list" where
  "contents_api =
     [''dir_exists'', ''is_hidden'', ''file_exists'', ''exists'', ''get'', ''save'',
      ''update'', ''delete'', ''create_checkpoint'', ''list_checkpoints'',
      ''restore_checkpoint'', ''delete_checkpoint'', ''rename_file'', ''rename'']"

text \<open>
  \<^verbatim>\<open>getattr(man, name)(*args, **kwargs)\<close> on a mounted manager, and
  \<^verbatim>\<open>super(MixedContentsManager, self).name(*args, **kwargs)\<close>: a name outside the
  interface raises \<^verbatim>\<open>AttributeError\<close> before anything is called.
\<close>

definition call_backend ::
  "'w env \<Rightarrow> backend \<Rightarrow> string \<Rightarrow> pyval list \<Rightarrow> kwargs \<Rightarrow> 'w \<Rightarrow> (error + pyval) \<times> 'w" where
  "call_backend env man name args kw w =
     (if name \<in> set contents_api then backend_op env man name args kw w
      else (Inl (AttributeError name), w))"

definition call_super ::
  "'w env \<Rightarrow> string \<Rightarrow> pyval list \<Rightarrow> kwargs \<Rightarrow> 'w \<Rightarrow> (error + pyval) \<times> 'w" where
  "call_super env name args kw w =
     (if name \<in> set contents_api then default_op env name args kw w
      else (Inl (AttributeError name), w))"

section \<open>Construction of the mount table\<close>

text \<open>\<^verbatim>\<open>for k, v in scheme["config"].items(): setattr(manager, k, v)\<close>.\<close>

definition setattrs :: "backend \<Rightarrow> (string \<times> pyval) list \<Rightarrow> backend" where
  "setattrs b kvs = fold (\<lambda>(k, v) b'. b'\<lparr>b_attrs := dict_set (b_attrs b') k v\<rparr>) kvs b"

text \<open>
  The loop of \<^verbatim>\<open>__init__\<close> over \<^verbatim>\<open>filesystem_scheme\<close>. \<open>n\<close> counts the managers made
  so far and is the identity of the next one.
\<close>

fun build_managers ::
  "'w env \<Rightarrow> scheme list \<Rightarrow> nat \<Rightarrow> (string \<times> backend) list \<Rightarrow> 'w \<Rightarrow>
     (error + (string \<times> backend) list) \<times> 'w" where
  "build_managers env [] n ms w = (Inr ms, w)"
| "build_managers env (s # ss) n ms w =
     (case instantiate env (cls s) w of
        (Some e, w') \<Rightarrow> (Inl e, w')
      | (None, w') \<Rightarrow>
          (let man = \<lparr>b_id = n, b_class = cls s, b_attrs = []\<rparr>;
               man' = (if config s \<noteq> [] then setattrs man (config s) else man)
           in build_managers env ss (Suc n) (dict_set ms (root s) man') w'))"

text \<open>
  \<^verbatim>\<open>MixedContentsManager.__init__\<close>, after the base class has been initialised:
  the consistency check of the scheme, then the loop.
\<close>

definition duplicate_mount :: error where
  "duplicate_mount =
     ValueError ''Scheme should not mount two contents manager on the same mountpoint''"

definition init ::
  "'w env \<Rightarrow> string \<Rightarrow> scheme list \<Rightarrow> 'w \<Rightarrow> (error + mixed_cm) \<times> 'w" where
  "init env mpath filesystem_scheme w =
     (if \<not> card (set (map root filesystem_scheme)) = length filesystem_scheme
      then (Inl duplicate_mount, w)
      else (case build_managers env filesystem_scheme 0 [] w of
              (Inl e, w') \<Rightarrow> (Inl e, w')
            | (Inr ms, w') \<Rightarrow> (Inr \<lparr>mixed_path = mpath, managers = ms\<rparr>, w')))"

section \<open>Rewriting the paths of a result\<close>

text \<open>\<^verbatim>\<open>"path" in e\<close>: a key of a dictionary, a substring of a string, an element of a list.\<close>

fun py_contains :: "pyval \<Rightarrow> string \<Rightarrow> error + bool" where
  "py_contains (PDict d) k = Inr (k \<in> fst ` set d)"
| "py_contains (PStr s) k = Inr (contains_str s k)"
| "py_contains (PList xs) k = Inr (PStr k \<in> set xs)"
| "py_contains _ k = Inl TypeError"

text \<open>\<^verbatim>\<open>for e in x\<close>: the elements of a list, the characters of a string, the keys of a dictionary.\<close>

fun py_iter :: "pyval \<Rightarrow> error + pyval list" where
  "py_iter (PList xs) = Inr xs"
| "py_iter (PStr s) = Inr (map (\<lambda>c. PStr [c]) s)"
| "py_iter (PDict d) = Inr (map (\<lambda>(k, v). PStr k) d)"
| "py_iter _ = Inl TypeError"

text \<open>
  The body of the loop of \<^verbatim>\<open>_fix_paths\<close> over the content:
  \<^verbatim>\<open>if "path" in e: e["path"] = os.path.join(base_path, e["path"].lstrip("/"))\<close>.
\<close>

definition fix_child :: "string \<Rightarrow> pyval \<Rightarrow> error + pyval" where
  "fix_child base_path e =
     (case py_contains e ''path'' of
        Inl err \<Rightarrow> Inl err
      | Inr False \<Rightarrow> Inr e
      | Inr True \<Rightarrow>
          (case py_getitem e ''path'' of
             Inl err \<Rightarrow> Inl err
           | Inr (PStr p) \<Rightarrow> py_setitem e ''path'' (PStr (os_path_join base_path (lstrip_sep p)))
           | Inr _ \<Rightarrow> Inl (AttributeError ''lstrip'')))"

fun fix_children :: "string \<Rightarrow> pyval list \<Rightarrow> error + pyval list" where
  "fix_children base_path [] = Inr []"
| "fix_children base_path (e # es) =
     (case fix_child base_path e of
        Inl err \<Rightarrow> Inl err
      | Inr e' \<Rightarrow>
          (case fix_children base_path es of
             Inl err \<Rightarrow> Inl err
           | Inr es' \<Rightarrow> Inr (e' # es')))"

text \<open>
  The loop over \<^verbatim>\<open>sub.get("content")\<close>. The elements of a list are the children
  themselves, assigned in place; the characters of a string and the keys of a dictionary
  are values of their own, and the content stays as it is unless the body raises.
\<close>

definition fix_content :: "string \<Rightarrow> pyval \<Rightarrow> error + pyval" where
  "fix_content base_path c =
     (case py_iter c of
        Inl err \<Rightarrow> Inl err
      | Inr es \<Rightarrow>
          (case fix_children base_path es of
             Inl err \<Rightarrow> Inl err
           | Inr es' \<Rightarrow> (case c of PList _ \<Rightarrow> Inr (PList es') | _ \<Rightarrow> Inr c)))"

text \<open>\<^verbatim>\<open>_fix_paths(self, sub, base_path)\<close>.\<close>

definition fix_paths :: "pyval \<Rightarrow> string \<Rightarrow> error + pyval" where
  "fix_paths sub base_path =
     (case sub of
        PDict d \<Rightarrow>
          (case (if ''path'' \<in> fst ` set d
                 then (case dict_get d ''path'' of
                         Some (PStr p) \<Rightarrow> Inr (dict_set d ''path'' (PStr (os_path_join base_path p)))
                       | _ \<Rightarrow> Inl TypeError)
                 else Inr d) of
             Inl err \<Rightarrow> Inl err
           | Inr d1 \<Rightarrow>
               (if dict_get d1 ''type'' = Some (PStr ''directory'') \<and>
                   (case dict_get d1 ''content'' of None \<Rightarrow> False | Some c \<Rightarrow> py_truthy c)
                then (case dict_get d1 ''content'' of
                        None \<Rightarrow> Inr (PDict d1)
                      | Some c \<Rightarrow>
                          (case fix_content base_path c of
                             Inl err \<Rightarrow> Inl err
                           | Inr c' \<Rightarrow> Inr (PDict (dict_set d1 ''content'' c'))))
                else Inr (PDict d1)))
      | _ \<Rightarrow> Inr sub)"

section \<open>Resolving a path to a mounted manager\<close>

text \<open>\<^verbatim>\<open>_get_cm(self, sentinel, listpath)\<close>; \<open>None\<close> is Python's \<^verbatim>\<open>None\<close>.\<close>

definition get_cm :: "mixed_cm \<Rightarrow> string \<Rightarrow> string list \<Rightarrow> backend option" where
  "get_cm self sentinel listpath =
     (if sentinel \<noteq> mixed_path self \<or> length listpath = 0 then None
      else (case listpath of [] \<Rightarrow> None | mount # _ \<Rightarrow> dict_get (managers self) mount))"

section \<open>The dispatch decorators\<close>

text \<open>
  \<^verbatim>\<open>path_dispatch1(method)\<close>: \<open>name\<close> is \<^verbatim>\<open>method.__name__\<close>, \<open>method\<close> the
  decorated body. The decorated body receives the stripped path, which the source binds
  to \<^verbatim>\<open>path\<close> again. \<^verbatim>\<open>_path[0]\<close> raises \<^verbatim>\<open>IndexError\<close> on an empty list, and
  \<^verbatim>\<open>_path[1:]\<close> is the rest. No decorated operation takes further positional
  arguments, so \<^verbatim>\<open>*args\<close> is empty.
\<close>

definition path_dispatch1 ::
  "string \<Rightarrow> (string \<Rightarrow> kwargs \<Rightarrow> 'w \<Rightarrow> (error + pyval) \<times> 'w) \<Rightarrow>
   'w env \<Rightarrow> mixed_cm \<Rightarrow> string \<Rightarrow> kwargs \<Rightarrow> 'w \<Rightarrow> (error + pyval) \<times> 'w" where
  "path_dispatch1 name method env self path kw w =
     (case split_path path of
        Inl e \<Rightarrow> (Inl e, w)
      | Inr (sentinel, lpath, path') \<Rightarrow>
          (case get_cm self sentinel lpath of
             Some man \<Rightarrow>
               (case lpath of
                  [] \<Rightarrow> (Inl IndexError, w)
                | mount # rest \<Rightarrow>
                    (let base_path = os_path_join sentinel mount in
                     case call_backend env man name [PStr (join_sep rest)] kw w of
                       (Inl e, w') \<Rightarrow> (Inl e, w')
                     | (Inr sub, w') \<Rightarrow> (fix_paths sub base_path, w')))
           | None \<Rightarrow> method path' kw w))"

text \<open>\<^verbatim>\<open>path_dispatch2(method)\<close>: the path is the second argument, after \<open>other\<close>.\<close>

definition path_dispatch2 ::
  "string \<Rightarrow> (pyval \<Rightarrow> string \<Rightarrow> 'w \<Rightarrow> (error + pyval) \<times> 'w) \<Rightarrow>
   'w env \<Rightarrow> mixed_cm \<Rightarrow> pyval \<Rightarrow> string \<Rightarrow> 'w \<Rightarrow> (error + pyval) \<times> 'w" where
  "path_dispatch2 name method env self other path w =
     (case split_path path of
        Inl e \<Rightarrow> (Inl e, w)
      | Inr (sentinel, lpath, path') \<Rightarrow>
          (case get_cm self sentinel lpath of
             Some man \<Rightarrow>
               (case lpath of
                  [] \<Rightarrow> (Inl IndexError, w)
                | mount # rest \<Rightarrow>
                    (let base_path = os_path_join sentinel mount in
                     case call_backend env man name [other, PStr (join_sep rest)] [] w of
                       (Inl e, w') \<Rightarrow> (Inl e, w')
                     | (Inr sub, w') \<Rightarrow> (fix_paths sub base_path, w')))
           | None \<Rightarrow> method other path' w))"

text \<open>\<^verbatim>\<open>path_dispatch_kwarg(method)\<close>: the path is passed on by keyword.\<close>

definition path_dispatch_kwarg ::
  "string \<Rightarrow> (string \<Rightarrow> 'w \<Rightarrow> (error + pyval) \<times> 'w) \<Rightarrow>
   'w env \<Rightarrow> mixed_cm \<Rightarrow> string \<Rightarrow> 'w \<Rightarrow> (error + pyval) \<times> 'w" where
  "path_dispatch_kwarg name method env self path w =
     (case split_path path of
        Inl e \<Rightarrow> (Inl e, w)
      | Inr (sentinel, lpath, path') \<Rightarrow>
          (case get_cm self sentinel lpath of
             Some man \<Rightarrow>
               (case lpath of
                  [] \<Rightarrow> (Inl IndexError, w)
                | mount # rest \<Rightarrow>
                    (let base_path = os_path_join sentinel mount in
                     case call_backend env man name [] [(''path'', PStr (join_sep rest))] w of
                       (Inl e, w') \<Rightarrow> (Inl e, w')
                     | (Inr sub, w') \<Rightarrow> (fix_paths sub base_path, w')))
           | None \<Rightarrow> method path' w))"

text \<open>
  \<^verbatim>\<open>path_dispatch_rename(rename_like_method)\<close>. The source unpacks the triple of
  \<^verbatim>\<open>_split_path\<close> as \<^verbatim>\<open>_, _old_path, old_sentinel\<close>: \<open>old_sentinel\<close> and
  \<open>new_sentinel\<close> are the third components, the stripped paths, and \<open>old_list\<close>,
  \<open>new_list\<close> the lists after the first segment. After the call of the manager the
  source reads \<^verbatim>\<open>self.fix_path\<close>, an attribute that neither this class nor the interface
  of its base class has.
\<close>

definition cross_mount_rename :: error where
  "cross_mount_rename =
     ValueError ''Does not know how to move things across contents manager mountpoints''"

definition path_dispatch_rename ::
  "string \<Rightarrow> (string \<Rightarrow> string \<Rightarrow> 'w \<Rightarrow> (error + pyval) \<times> 'w) \<Rightarrow>
   'w env \<Rightarrow> mixed_cm \<Rightarrow> string \<Rightarrow> string \<Rightarrow> 'w \<Rightarrow> (error + pyval) \<times> 'w" where
  "path_dispatch_rename name rename_like_method env self old_path new_path w =
     (case split_path old_path of
        Inl e \<Rightarrow> (Inl e, w)
      | Inr (_, old_list, old_sentinel) \<Rightarrow>
          (case split_path new_path of
             Inl e \<Rightarrow> (Inl e, w)
           | Inr (_, new_list, new_sentinel) \<Rightarrow>
               (if old_sentinel \<noteq> new_sentinel then (Inl cross_mount_rename, w)
                else (let sentinel = new_sentinel in
                      case dict_get (managers self) sentinel of
                        Some man \<Rightarrow>
                          (case call_backend env man name
                                  [PStr (join_sep old_list), PStr (join_sep new_list)] [] w of
                             (Inl e, w') \<Rightarrow> (Inl e, w')
                           | (Inr sub, w') \<Rightarrow> (Inl (AttributeError ''fix_path''), w'))
                      | None \<Rightarrow> rename_like_method old_path new_path w))))"

section \<open>The operations of the contents manager\<close>

text \<open>The decorated bodies first, each followed by the operation as callers see it.\<close>

definition dir_exists_body :: "'w env \<Rightarrow> mixed_cm \<Rightarrow> string \<Rightarrow> 'w \<Rightarrow> (error + pyval) \<times> 'w" where
  "dir_exists_body env self path w =
     (if length path = 0 \<or> path = mixed_path self then (Inr (PBool True), w)
      else call_super env ''dir_exists'' [PStr (os_path_join [sep] path)] [] w)"

definition dir_exists :: "'w env \<Rightarrow> mixed_cm \<Rightarrow> string \<Rightarrow> 'w \<Rightarrow> (error + pyval) \<times> 'w" where
  "dir_exists env self path w =
     path_dispatch1 ''dir_exists'' (\<lambda>p kw. dir_exists_body env self p) env self path [] w"

definition is_hidden_body :: "'w env \<Rightarrow> mixed_cm \<Rightarrow> string \<Rightarrow> 'w \<Rightarrow> (error + pyval) \<times> 'w" where
  "is_hidden_body env self path w =
     (if length path = 0 \<or> path = mixed_path self then (Inr (PBool False), w)
      else call_super env ''is_hidden'' [PStr (os_path_join [sep] path)] [] w)"

definition is_hidden :: "'w env \<Rightarrow> mixed_cm \<Rightarrow> string \<Rightarrow> 'w \<Rightarrow> (error + pyval) \<times> 'w" where
  "is_hidden env self path w =
     path_dispatch1 ''is_hidden'' (\<lambda>p kw. is_hidden_body env self p) env self path [] w"

definition file_exists_body :: "'w env \<Rightarrow> mixed_cm \<Rightarrow> string \<Rightarrow> 'w \<Rightarrow> (error + pyval) \<times> 'w" where
  "file_exists_body env self path w =
     (if length path = 0 \<or> path = mixed_path self then (Inr (PBool False), w)
      else call_super env ''file_exists'' [PStr (os_path_join [sep] path)] [] w)"

definition file_exists :: "'w env \<Rightarrow> mixed_cm \<Rightarrow> string \<Rightarrow> 'w \<Rightarrow> (error + pyval) \<times> 'w" where
  "file_exists env self path w =
     path_dispatch_kwarg ''file_exists'' (file_exists_body env self) env self path w"

definition exists_body :: "'w env \<Rightarrow> mixed_cm \<Rightarrow> string \<Rightarrow> 'w \<Rightarrow> (error + pyval) \<times> 'w" where
  "exists_body env self path w =
     (if length path = 0 \<or> path = mixed_path self then (Inr (PBool True), w)
      else call_super env ''exists'' [PStr (os_path_join [sep] path)] [] w)"

definition exists :: "'w env \<Rightarrow> mixed_cm \<Rightarrow> string \<Rightarrow> 'w \<Rightarrow> (error + pyval) \<times> 'w" where
  "exists env self path w =
     path_dispatch1 ''exists'' (\<lambda>p kw. exists_body env self p) env self path [] w"

subsection \<open>\<^verbatim>\<open>get\<close> and the listing of the mount points\<close>

text \<open>The entry appended to the listing of the root directory.\<close>

definition mount_point_entry :: "mixed_cm \<Rightarrow> pyval" where
  "mount_point_entry self =
     PDict [(''type'', PStr ''directory''), (''name'', PStr (mixed_path self)),
            (''path'', PStr (mixed_path self))]"

text \<open>
  The dictionary literal of the synthetic directory. The literal names the key
  \<^verbatim>\<open>type\<close> twice with the same value; the key keeps its first position.
\<close>

definition empty_listing :: "mixed_cm \<Rightarrow> (string \<times> pyval) list" where
  "empty_listing self =
     [(''type'', PStr ''directory''), (''name'', PStr (mixed_path self)),
      (''path'', PStr (mixed_path self)), (''content'', PList []),
      (''last_modified'', PNone), (''created'', PNone), (''format'', PStr ''json''),
      (''mimetype'', PNone), (''size'', PNone), (''writable'', PBool False)]"

text \<open>
  The three assignments to the root model of one mount:
  \<^verbatim>\<open>d["content"] = None; d["name"] = subpath; d["path"] = os.path.join(mixed_path, subpath)\<close>.
\<close>

definition mount_entry :: "mixed_cm \<Rightarrow> string \<Rightarrow> pyval \<Rightarrow> error + pyval" where
  "mount_entry self subpath d =
     (case py_setitem d ''content'' PNone of
        Inl e \<Rightarrow> Inl e
      | Inr d1 \<Rightarrow>
          (case py_setitem d1 ''name'' (PStr subpath) of
             Inl e \<Rightarrow> Inl e
           | Inr d2 \<Rightarrow> py_setitem d2 ''path'' (PStr (os_path_join (mixed_path self) subpath))))"

text \<open>
  The loop over \<^verbatim>\<open>self.managers.items()\<close> with its \<^verbatim>\<open>try\<close> and bare
  \<^verbatim>\<open>except: pass\<close>. \<open>content\<close> is \<^verbatim>\<open>root["content"]\<close> and \<open>lm\<close> the list of time
  stamps. An exception leaves the body where it is raised: a failing \<^verbatim>\<open>get\<close> or a
  result that takes no item assignment adds nothing; a missing \<^verbatim>\<open>last_modified\<close> is
  raised after the entry has been appended to the content.
\<close>

fun collect_roots ::
  "'w env \<Rightarrow> mixed_cm \<Rightarrow> kwargs \<Rightarrow> (string \<times> backend) list \<Rightarrow> pyval list \<Rightarrow> pyval list \<Rightarrow> 'w \<Rightarrow>
     pyval list \<times> pyval list \<times> 'w" where
  "collect_roots env self kw [] content lm w = (content, lm, w)"
| "collect_roots env self kw ((subpath, manager) # ms) content lm w =
     (case call_backend env manager ''get'' [PStr [sep]] kw w of
        (Inl e, w') \<Rightarrow> collect_roots env self kw ms content lm w'
      | (Inr d, w') \<Rightarrow>
          (case mount_entry self subpath d of
             Inl e \<Rightarrow> collect_roots env self kw ms content lm w'
           | Inr d' \<Rightarrow>
               (case py_getitem d' ''last_modified'' of
                  Inl e \<Rightarrow> collect_roots env self kw ms (content @ [d']) lm w'
                | Inr t \<Rightarrow> collect_roots env self kw ms (content @ [d']) (lm @ [t]) w')))"

definition get_body :: "'w env \<Rightarrow> mixed_cm \<Rightarrow> string \<Rightarrow> kwargs \<Rightarrow> 'w \<Rightarrow> (error + pyval) \<times> 'w" where
  "get_body env self path kw w =
     (if length path = 0 then
        (case call_super env ''get'' [PStr [sep]] kw w of
           (Inl e, w') \<Rightarrow> (Inl e, w')
         | (Inr root_model, w') \<Rightarrow>
             (case py_getitem root_model ''content'' of
                Inl e \<Rightarrow> (Inl e, w')
              | Inr (PList cs) \<Rightarrow>
                  (py_setitem root_model ''content'' (PList (cs @ [mount_point_entry self])), w')
              | Inr _ \<Rightarrow> (Inl (AttributeError ''append''), w')))
      else if path = mixed_path self then
        (case collect_roots env self kw (managers self) [] [] w of
           (content, lm, w') \<Rightarrow>
             (case py_max lm of
                Inl e \<Rightarrow> (Inl e, w')
              | Inr newest \<Rightarrow>
                  (case py_min lm of
                     Inl e \<Rightarrow> (Inl e, w')
                   | Inr oldest \<Rightarrow>
                       (Inr (PDict (dict_set (dict_set (dict_set (empty_listing self)
                                ''content'' (PList content))
                                ''last_modified'' newest)
                                ''created'' oldest)), w'))))
      else call_super env ''get'' [PStr (os_path_join [sep] path)] kw w)"

definition get :: "'w env \<Rightarrow> mixed_cm \<Rightarrow> string \<Rightarrow> kwargs \<Rightarrow> 'w \<Rightarrow> (error + pyval) \<times> 'w" where
  "get env self path kw w = path_dispatch1 ''get'' (get_body env self) env self path kw w"

subsection \<open>\<^verbatim>\<open>save\<close>, \<^verbatim>\<open>update\<close>, \<^verbatim>\<open>delete\<close> and the checkpoints\<close>

definition save :: "'w env \<Rightarrow> mixed_cm \<Rightarrow> pyval \<Rightarrow> string \<Rightarrow> 'w \<Rightarrow> (error + pyval) \<times> 'w" where
  "save env self model path w =
     path_dispatch2 ''save'' (\<lambda>m p. call_super env ''save'' [m, PStr p] []) env self model path w"

text \<open>\<^verbatim>\<open>x.strip\<close> exists on a string only.\<close>

fun py_str :: "pyval \<Rightarrow> error + string" where
  "py_str (PStr s) = Inr s"
| "py_str _ = Inl (AttributeError ''strip'')"

definition cross_mount_update :: error where
  "cross_mount_update = ValueError ''Does not know how to move model across mountpoints''"

text \<open>
  \<^verbatim>\<open>update(self, model, path)\<close>. The fall-back receives \<^verbatim>\<open>path\<close> as it was given:
  the stripped path is bound to \<^verbatim>\<open>_path\<close> here and is not used.
\<close>

definition update :: "'w env \<Rightarrow> mixed_cm \<Rightarrow> pyval \<Rightarrow> string \<Rightarrow> 'w \<Rightarrow> (error + pyval) \<times> 'w" where
  "update env self model path w =
     (case split_path path of
        Inl e \<Rightarrow> (Inl e, w)
      | Inr (sentinel, listpath, _) \<Rightarrow>
          (case py_getitem model ''path'' of
             Inl e \<Rightarrow> (Inl e, w)
           | Inr mp \<Rightarrow>
               (case py_str mp of
                  Inl e \<Rightarrow> (Inl e, w)
                | Inr model_path \<Rightarrow>
                    (case split_path model_path of
                       Inl e \<Rightarrow> (Inl e, w)
                     | Inr (m_sentinel, m_listpath, orig_path) \<Rightarrow>
                         (let man = get_cm self sentinel listpath;
                              m_man = get_cm self m_sentinel m_listpath
                          in if man \<noteq> m_man then (Inl cross_mount_update, w)
                             else (case man of
                                     Some manager \<Rightarrow>
                                       (case listpath of
                                          [] \<Rightarrow> (Inl IndexError, w)
                                        | mount # rest \<Rightarrow>
                                            (let base_path = os_path_join sentinel mount in
                                             case py_setitem model ''path''
                                                    (PStr (join_sep (drop 1 m_listpath))) of
                                               Inl e \<Rightarrow> (Inl e, w)
                                             | Inr model' \<Rightarrow>
                                                 (case call_backend env manager ''update''
                                                         [model', PStr (join_sep rest)] [] w of
                                                    (Inl e, w') \<Rightarrow> (Inl e, w')
                                                  | (Inr sub, w') \<Rightarrow> (fix_paths sub base_path, w'))))
                                   | None \<Rightarrow> call_super env ''update'' [model, PStr path] [] w))))))"

definition delete :: "'w env \<Rightarrow> mixed_cm \<Rightarrow> string \<Rightarrow> 'w \<Rightarrow> (error + pyval) \<times> 'w" where
  "delete env self path w =
     path_dispatch1 ''delete'' (\<lambda>p kw. call_super env ''delete'' [PStr p] []) env self path [] w"

definition create_checkpoint :: "'w env \<Rightarrow> mixed_cm \<Rightarrow> string \<Rightarrow> 'w \<Rightarrow> (error + pyval) \<times> 'w" where
  "create_checkpoint env self path w =
     path_dispatch1 ''create_checkpoint''
       (\<lambda>p kw. call_super env ''create_checkpoint'' [PStr p] []) env self path [] w"

definition list_checkpoints :: "'w env \<Rightarrow> mixed_cm \<Rightarrow> string \<Rightarrow> 'w \<Rightarrow> (error + pyval) \<times> 'w" where
  "list_checkpoints env self path w =
     path_dispatch1 ''list_checkpoints''
       (\<lambda>p kw. call_super env ''list_checkpoints'' [PStr p] []) env self path [] w"

text \<open>
  The two bodies below call \<^verbatim>\<open>restore_checkpoints\<close> and \<^verbatim>\<open>delete_checkpoints\<close>
  (plural) of the base class, with the path alone.
\<close>

definition restore_checkpoint ::
  "'w env \<Rightarrow> mixed_cm \<Rightarrow> pyval \<Rightarrow> string \<Rightarrow> 'w \<Rightarrow> (error + pyval) \<times> 'w" where
  "restore_checkpoint env self checkpoint_id path w =
     path_dispatch2 ''restore_checkpoint''
       (\<lambda>c p. call_super env ''restore_checkpoints'' [PStr p] []) env self checkpoint_id path w"

definition delete_checkpoint ::
  "'w env \<Rightarrow> mixed_cm \<Rightarrow> pyval \<Rightarrow> string \<Rightarrow> 'w \<Rightarrow> (error + pyval) \<times> 'w" where
  "delete_checkpoint env self checkpoint_id path w =
     path_dispatch2 ''delete_checkpoint''
       (\<lambda>c p. call_super env ''delete_checkpoints'' [PStr p] []) env self checkpoint_id path w"

subsection \<open>\<^verbatim>\<open>rename_file\<close> and \<^verbatim>\<open>rename\<close>\<close>

definition rename_file :: "'w env \<Rightarrow> mixed_cm \<Rightarrow> string \<Rightarrow> string \<Rightarrow> 'w \<Rightarrow> (error + pyval) \<times> 'w" where
  "rename_file env self old_path new_path w =
     path_dispatch_rename ''rename_file''
       (\<lambda>p q. call_super env ''rename_file'' [PStr p, PStr q] []) env self old_path new_path w"

definition rename :: "'w env \<Rightarrow> mixed_cm \<Rightarrow> string \<Rightarrow> string \<Rightarrow> 'w \<Rightarrow> (error + pyval) \<times> 'w" where
  "rename env self old_path new_path w =
     path_dispatch_rename ''rename''
       (\<lambda>p q. call_super env ''rename'' [PStr p, PStr q] []) env self old_path new_path w"

section \<open>Notions of the specification\<close>

text \<open>
  The definitions of this section do not come from the source. They name what the
  specification talks about, so that the operations above can be compared with it.
\<close>

text \<open>The manager a path resolves to: decomposition followed by \<^verbatim>\<open>_get_cm\<close>.\<close>

definition resolve :: "mixed_cm \<Rightarrow> string \<Rightarrow> backend option" where
  "resolve self path =
     (case split_path path of
        Inl e \<Rightarrow> None
      | Inr (sentinel, lpath, path') \<Rightarrow> get_cm self sentinel lpath)"

text \<open>The segments of a path, leading and trailing separators trimmed.\<close>

definition segments :: "string \<Rightarrow> string list" where
  "segments path = split_sep (strip_sep path)"

text \<open>
  The backend-local form of a path under a mount: the segments after the virtual prefix
  and the mount name, joined again. The base path of a result: virtual prefix and mount
  name.
\<close>

definition backend_local :: "string \<Rightarrow> string" where
  "backend_local path = join_sep (drop 2 (segments path))"

definition mount_base :: "mixed_cm \<Rightarrow> string \<Rightarrow> string" where
  "mount_base self path = os_path_join (mixed_path self) (hd (tl (segments path)))"

text \<open>The rewriting of one child of a directory listing, in the words of the specification.\<close>

definition rewrite_child :: "string \<Rightarrow> pyval \<Rightarrow> pyval" where
  "rewrite_child base_path c =
     (case c of
        PDict cd \<Rightarrow>
          (case dict_get cd ''path'' of
             Some (PStr p) \<Rightarrow> PDict (dict_set cd ''path'' (PStr (os_path_join base_path (lstrip_sep p))))
           | _ \<Rightarrow> c)
      | _ \<Rightarrow> c)"

text \<open>The rewriting of a record's own path: the base path joined with it.\<close>

definition rewrite_own :: "string \<Rightarrow> (string \<times> pyval) list \<Rightarrow> (string \<times> pyval) list" where
  "rewrite_own base_path d =
     (case dict_get d ''path'' of
        Some (PStr p) \<Rightarrow> dict_set d ''path'' (PStr (os_path_join base_path p))
      | _ \<Rightarrow> d)"

text \<open>A directory record with non-empty content.\<close>

definition listing :: "(string \<times> pyval) list \<Rightarrow> bool" where
  "listing d =
     (dict_get d ''type'' = Some (PStr ''directory'') \<and>
      (case dict_get d ''content'' of None \<Rightarrow> False | Some c \<Rightarrow> py_truthy c))"

text \<open>A child record: a dictionary whose path, when it has one, is a string.\<close>

definition child_record :: "pyval \<Rightarrow> bool" where
  "child_record c =
     (case c of
        PDict cd \<Rightarrow> (case dict_get cd ''path'' of None \<Rightarrow> True | Some (PStr p) \<Rightarrow> True | Some _ \<Rightarrow> False)
      | _ \<Rightarrow> False)"

text \<open>
  The fetches of the mounts' roots, in the order of the mount table: each mount name with
  what its manager's \<^verbatim>\<open>get("/")\<close> gave, and the world after the last fetch.
\<close>

fun fetch_roots ::
  "'w env \<Rightarrow> kwargs \<Rightarrow> (string \<times> backend) list \<Rightarrow> 'w \<Rightarrow> (string \<times> (error + pyval)) list \<times> 'w" where
  "fetch_roots env kw [] w = ([], w)"
| "fetch_roots env kw ((name, manager) # ms) w =
     (case backend_op env manager ''get'' [PStr [sep]] kw w of
        (r, w') \<Rightarrow> (case fetch_roots env kw ms w' of (rs, w'') \<Rightarrow> ((name, r) # rs, w'')))"

text \<open>
  A fetch that returned a model carrying a time stamp of the given kind, and the clock
  value of that time stamp.
\<close>

fun stamped :: "awareness \<Rightarrow> string \<times> (error + pyval) \<Rightarrow> bool" where
  "stamped aw (name, Inr (PDict d)) =
     (case dict_get d ''last_modified'' of Some (PTime a t) \<Rightarrow> a = aw | _ \<Rightarrow> False)"
| "stamped aw (name, _) = False"

fun stamp_of :: "string \<times> (error + pyval) \<Rightarrow> int" where
  "stamp_of (name, Inr (PDict d)) =
     (case dict_get d ''last_modified'' of Some (PTime a t) \<Rightarrow> t | _ \<Rightarrow> 0)"
| "stamp_of (name, _) = 0"

text \<open>A fetch that raised.\<close>

fun raised :: "string \<times> (error + pyval) \<Rightarrow> bool" where
  "raised (name, Inl e) = True"
| "raised (name, Inr v) = False"

text \<open>
  The fetches that \<open>get\<close> on the prefix alone makes, and those among them that did not
  raise.
\<close>

definition root_fetches ::
  "'w env \<Rightarrow> mixed_cm \<Rightarrow> kwargs \<Rightarrow> 'w \<Rightarrow> (string \<times> (error + pyval)) list" where
  "root_fetches env self kw w = fst (fetch_roots env kw (managers self) w)"

definition fetched :: "(string \<times> (error + pyval)) list \<Rightarrow> (string \<times> (error + pyval)) list" where
  "fetched rs = filter (\<lambda>r. \<not> raised r) rs"

text \<open>
  The summary entry of a mount in the listing: its root model without content, named
  after the mount, at the path of the mount.
\<close>

fun summary_entry :: "mixed_cm \<Rightarrow> string \<times> (error + pyval) \<Rightarrow> pyval" where
  "summary_entry self (name, Inr (PDict d)) =
     PDict (dict_set (dict_set (dict_set d ''content'' PNone) ''name'' (PStr name))
              ''path'' (PStr (os_path_join (mixed_path self) name)))"
| "summary_entry self (name, _) = PNone"

text \<open>The backend instance that the construction makes for the \<open>i\<close>-th entry of the scheme.\<close>

definition instance_of :: "nat \<Rightarrow> scheme \<Rightarrow> backend" where
  "instance_of i s = setattrs \<lparr>b_id = i, b_class = cls s, b_attrs = []\<rparr> (config s)"

section \<open>A configuration and a world to run the manager in\<close>

text \<open>
  Three mounts under the prefix \<^verbatim>\<open>mixed\<close>. The world is the log of the calls made to
  the managers, to the base class and to the constructors. The roots of \<open>space1\<close> and
  \<open>space2\<close> carry the offset-aware time stamps 10 and 20, the manager of \<open>space3\<close> is
  out of reach, and a fourth manager, not mounted in \<open>demo_cm\<close>, answers with an
  offset-naive time stamp; \<open>update\<close> answers with the model it was given, every other operation with its
  name, the manager and its arguments.
\<close>

definition space_manager :: "nat \<Rightarrow> string \<Rightarrow> backend" where
  "space_manager i space =
     \<lparr>b_id = i, b_class = ''onedatafs_jupyter.OnedataFSContentsManager'',
      b_attrs = [(''space'', PStr space)]\<rparr>"

definition demo_cm :: mixed_cm where
  "demo_cm =
     \<lparr>mixed_path = ''mixed'',
      managers = [(''space1'', space_manager 0 ''/space1''),
                  (''space2'', space_manager 1 ''/space2''),
                  (''space3'', space_manager 2 ''/space3'')]\<rparr>"

definition demo_root :: "awareness \<Rightarrow> int \<Rightarrow> pyval" where
  "demo_root a t =
     PDict [(''name'', PStr []), (''path'', PStr []), (''type'', PStr ''directory''),
            (''content'', PList [PDict [(''name'', PStr ''f''), (''path'', PStr ''f'')]]),
            (''last_modified'', PTime a t)]"

definition demo_env :: "(string \<times> pyval list) list env" where
  "demo_env =
     \<lparr>backend_op = (\<lambda>b name args kw w.
        (if name = ''get''
         then (if b_id b = 2 then Inl (BackendError ''offline'')
               else if b_id b = 3 then Inr (demo_root Naive 5)
               else Inr (demo_root Aware (10 * (1 + int (b_id b)))))
         else if name = ''update''
         then (case args of model # _ \<Rightarrow> Inr model | [] \<Rightarrow> Inl TypeError)
         else Inr (PList (PStr name # PInt (int (b_id b)) # args)),
         w @ [(name, args)])),
      default_op = (\<lambda>name args kw w. (Inr (PList (PStr name # args)), w @ [(name, args)])),
      instantiate = (\<lambda>c w.
        (if c = [] then Some (BackendError ''no such class'') else None,
         w @ [(''__init__'', [PStr c])]))\<rparr>"

definition demo_scheme :: "scheme list" where
  "demo_scheme =
     [\<lparr>root = ''space1'', cls = ''onedatafs_jupyter.OnedataFSContentsManager'',
       config = [(''space'', PStr ''/space1'')]\<rparr>,
      \<lparr>root = ''space2'', cls = ''onedatafs_jupyter.OnedataFSContentsManager'',
       config = [(''space'', PStr ''/space2'')]\<rparr>]"

text \<open>A directory listing as a mounted manager returns it: one child with a grandchild.\<close>

definition demo_listing :: "(string \<times> pyval) list" where
  "demo_listing =
     [(''type'', PStr ''directory''), (''path'', PStr ''a/b''),
      (''content'', PList [PDict [(''path'', PStr ''/c''), (''type'', PStr ''directory''),
         (''content'', PList [PDict [(''path'', PStr ''g'')]])]])]"

section \<open>Properties of the decomposition\<close>

lemma split_sep_not_Nil: "split_sep s \<noteq> []"
  by (induction s) (auto split: list.splits)

lemma join_split_sep: "join_sep (split_sep s) = s"
proof (induction s)
  case Nil
  show ?case by simp
next
  case (Cons c cs)
  obtain x xs where sp: "split_sep cs = x # xs"
    using split_sep_not_Nil [of cs] by (cases "split_sep cs") auto
  show ?case
  proof (cases "c = sep")
    case True
    with Cons sp show ?thesis by simp
  next
    case False
    with Cons sp show ?thesis by (cases xs) auto
  qed
qed

lemma split_path_eq:
  "split_path p = Inr (hd (split_sep (strip_sep p)), tl (split_sep (strip_sep p)), strip_sep p)"
  using split_sep_not_Nil [of "strip_sep p"]
  by (cases "split_sep (strip_sep p)") (auto simp: split_path_def)

text \<open>
  Claim C4. For every input string, the empty string and strings with leading or
  trailing separators included, the decomposition returns (it never raises), its third
  component is the input stripped of leading and trailing separators, and joining the
  leading segment followed by the remaining segments with the separator gives that
  normalised string back.
\<close>

theorem split_path_total_rejoin:
  "\<exists>sentinel list_path.
     split_path p = Inr (sentinel, list_path, strip_sep p) \<and>
     join_sep (sentinel # list_path) = strip_sep p"
proof -
  let ?l = "split_sep (strip_sep p)"
  have ne: "?l \<noteq> []" by (rule split_sep_not_Nil)
  then have "hd ?l # tl ?l = ?l" by simp
  then have "join_sep (hd ?l # tl ?l) = strip_sep p"
    by (simp add: join_split_sep)
  then show ?thesis
    using split_path_eq [of p] by blast
qed

theorem split_path_total_rejoin_witness:
  "split_path ''/mixed/space1/x/'' = Inr (''mixed'', [''space1'', ''x''], ''mixed/space1/x'') \<and>
   join_sep [''mixed'', ''space1'', ''x''] = ''mixed/space1/x'' \<and>
   split_path '''' = Inr ('''', [], '''')"
  using split_path_total_rejoin [of "''/mixed/space1/x/''"]
  by (simp add: split_path_def strip_sep_def lstrip_sep_def rstrip_sep_def)

section \<open>Dictionaries and calls through the interface\<close>

lemma dict_get_dict_set:
  "dict_get (dict_set d k v) k' = (if k' = k then Some v else dict_get d k')"
  by (induction d) (auto simp: dict_get_def)

lemma dict_set_fresh: "k \<notin> fst ` set d \<Longrightarrow> dict_set d k v = d @ [(k, v)]"
  by (induction d) auto

lemma call_backend_api:
  "name \<in> set contents_api \<Longrightarrow>
   call_backend env man name args kw w = backend_op env man name args kw w"
  by (simp add: call_backend_def)

lemma call_super_api:
  "name \<in> set contents_api \<Longrightarrow>
   call_super env name args kw w = default_op env name args kw w"
  by (simp add: call_super_def)

section \<open>Resolution of paths\<close>

lemma join_sep_longer: "l \<noteq> [] \<Longrightarrow> length s < length (join_sep (s # l))"
  by (cases l) auto

lemma split_path_segments:
  "split_path p = Inr (hd (segments p), tl (segments p), strip_sep p)"
  by (simp add: split_path_eq segments_def)

lemma segments_not_Nil: "segments p \<noteq> []"
  by (simp add: segments_def split_sep_not_Nil)

lemma join_segments: "join_sep (segments p) = strip_sep p"
  by (simp add: segments_def join_split_sep)

lemma resolve_eq: "resolve self p = get_cm self (hd (segments p)) (tl (segments p))"
  by (simp add: resolve_def split_path_segments)

text \<open>The empty path and the prefix alone never select a mounted manager.\<close>

lemma resolve_bare_prefix:
  assumes "strip_sep p = [] \<or> strip_sep p = mixed_path self"
  shows "resolve self p = None"
proof (cases "tl (segments p) = []")
  case True
  then show ?thesis by (simp add: resolve_eq get_cm_def)
next
  case False
  have "hd (segments p) # tl (segments p) = segments p"
    using segments_not_Nil [of p] by simp
  then have j: "join_sep (hd (segments p) # tl (segments p)) = strip_sep p"
    by (simp add: join_segments)
  have "length (hd (segments p)) < length (strip_sep p)"
    using join_sep_longer [OF False, of "hd (segments p)"] j by simp
  with assms have "hd (segments p) \<noteq> mixed_path self" by auto
  then show ?thesis by (simp add: resolve_eq get_cm_def)
qed

text \<open>Without a mounted manager each decorator runs the decorated body on the stripped path.\<close>

lemma path_dispatch1_unresolved:
  "resolve self p = None \<Longrightarrow>
   path_dispatch1 name method env self p kw w = method (strip_sep p) kw w"
  by (simp add: path_dispatch1_def split_path_segments resolve_eq)

lemma path_dispatch2_unresolved:
  "resolve self p = None \<Longrightarrow>
   path_dispatch2 name method env self other p w = method other (strip_sep p) w"
  by (simp add: path_dispatch2_def split_path_segments resolve_eq)

lemma path_dispatch_kwarg_unresolved:
  "resolve self p = None \<Longrightarrow>
   path_dispatch_kwarg name method env self p w = method (strip_sep p) w"
  by (simp add: path_dispatch_kwarg_def split_path_segments resolve_eq)

section \<open>The prefix alone\<close>

text \<open>
  Claim C8. For the empty path and for the bare virtual-prefix path (with or without
  surrounding separators), \<open>dir_exists\<close> and \<open>exists\<close> return true, \<open>file_exists\<close> and
  \<open>is_hidden\<close> return false. This holds for every environment, and the world comes back
  as it went in: no manager and no base-class operation is called.
\<close>

theorem bare_prefix_exists:
  assumes "strip_sep path = [] \<or> strip_sep path = mixed_path self"
  shows "dir_exists env self path w = (Inr (PBool True), w) \<and>
         exists env self path w = (Inr (PBool True), w) \<and>
         file_exists env self path w = (Inr (PBool False), w) \<and>
         is_hidden env self path w = (Inr (PBool False), w)"
proof -
  have r: "resolve self path = None" using assms by (rule resolve_bare_prefix)
  from assms show ?thesis
    by (auto simp: dir_exists_def exists_def file_exists_def is_hidden_def
        path_dispatch1_unresolved [OF r] path_dispatch_kwarg_unresolved [OF r]
        dir_exists_body_def exists_body_def file_exists_body_def is_hidden_body_def)
qed

theorem bare_prefix_exists_witness:
  "dir_exists demo_env demo_cm ''mixed'' [] = (Inr (PBool True), []) \<and>
   exists demo_env demo_cm ''/mixed/'' [] = (Inr (PBool True), []) \<and>
   file_exists demo_env demo_cm ''mixed'' [] = (Inr (PBool False), []) \<and>
   is_hidden demo_env demo_cm '''' [] = (Inr (PBool False), [])"
proof -
  have a: "strip_sep ''mixed'' = [] \<or> strip_sep ''mixed'' = mixed_path demo_cm"
    by (simp add: strip_sep_def lstrip_sep_def rstrip_sep_def demo_cm_def)
  have b: "strip_sep ''/mixed/'' = [] \<or> strip_sep ''/mixed/'' = mixed_path demo_cm"
    by (simp add: strip_sep_def lstrip_sep_def rstrip_sep_def demo_cm_def)
  have c: "strip_sep '''' = [] \<or> strip_sep '''' = mixed_path demo_cm"
    by (simp add: strip_sep_def lstrip_sep_def rstrip_sep_def demo_cm_def)
  show ?thesis
    using bare_prefix_exists [OF a, of demo_env "[]"] bare_prefix_exists [OF b, of demo_env "[]"]
      bare_prefix_exists [OF c, of demo_env "[]"]
    by simp
qed

section \<open>Falling back to the base class\<close>

text \<open>The stripped path never starts with a separator, so joining it to the root prepends one.\<close>

lemma strip_sep_no_leading_sep: "\<not> starts_with (strip_sep p) [sep]"
proof (cases "strip_sep p")
  case Nil
  then show ?thesis by simp
next
  case (Cons c cs)
  obtain t where t: "lstrip_sep p = strip_sep p @ t"
    unfolding strip_sep_def rstrip_sep_def
    by (metis rev_append rev_rev_ident takeWhile_dropWhile_id)
  with Cons have ne: "lstrip_sep p \<noteq> []" and h: "hd (lstrip_sep p) = c" by simp_all
  have "hd (lstrip_sep p) \<noteq> sep"
    using ne hd_dropWhile [of "\<lambda>c. c = sep" p] unfolding lstrip_sep_def by simp
  with h Cons show ?thesis by simp
qed

lemma root_join_strip: "os_path_join [sep] (strip_sep p) = sep # strip_sep p"
  using strip_sep_no_leading_sep [of p] by (simp add: os_path_join_def)

lemma api_names:
  "''dir_exists'' \<in> set contents_api" "''is_hidden'' \<in> set contents_api"
  "''file_exists'' \<in> set contents_api" "''exists'' \<in> set contents_api"
  "''get'' \<in> set contents_api" "''save'' \<in> set contents_api"
  "''update'' \<in> set contents_api" "''delete'' \<in> set contents_api"
  "''create_checkpoint'' \<in> set contents_api" "''list_checkpoints'' \<in> set contents_api"
  "''restore_checkpoint'' \<in> set contents_api" "''delete_checkpoint'' \<in> set contents_api"
  "''rename_file'' \<in> set contents_api" "''rename'' \<in> set contents_api"
  by (simp_all add: contents_api_def)

lemma not_api_names:
  "''restore_checkpoints'' \<notin> set contents_api" "''delete_checkpoints'' \<notin> set contents_api"
  by (simp_all add: contents_api_def)

text \<open>
  Claim C9, as amended. For every path that resolves to no mounted manager and whose
  stripped form is neither empty nor the prefix alone, \<open>dir_exists\<close>, \<open>is_hidden\<close>,
  \<open>file_exists\<close>, \<open>exists\<close> and \<open>get\<close> call the operation of the same name of the base
  class on the separator followed by the stripped path, and \<open>save\<close>, \<open>delete\<close>,
  \<open>create_checkpoint\<close> and \<open>list_checkpoints\<close> call it on the stripped path; in every
  case the result and the world are those of the base class, with no rewriting. The
  path handed on is the stripped one, not the path as it was given.
\<close>

theorem fallback_default_backend:
  assumes "resolve self path = None"
    and "strip_sep path \<noteq> []" and "strip_sep path \<noteq> mixed_path self"
  shows "dir_exists env self path w =
           default_op env ''dir_exists'' [PStr (sep # strip_sep path)] [] w \<and>
         is_hidden env self path w =
           default_op env ''is_hidden'' [PStr (sep # strip_sep path)] [] w \<and>
         file_exists env self path w =
           default_op env ''file_exists'' [PStr (sep # strip_sep path)] [] w \<and>
         exists env self path w =
           default_op env ''exists'' [PStr (sep # strip_sep path)] [] w \<and>
         get env self path kw w =
           default_op env ''get'' [PStr (sep # strip_sep path)] kw w \<and>
         save env self model path w =
           default_op env ''save'' [model, PStr (strip_sep path)] [] w \<and>
         delete env self path w =
           default_op env ''delete'' [PStr (strip_sep path)] [] w \<and>
         create_checkpoint env self path w =
           default_op env ''create_checkpoint'' [PStr (strip_sep path)] [] w \<and>
         list_checkpoints env self path w =
           default_op env ''list_checkpoints'' [PStr (strip_sep path)] [] w"
  using assms
  by (simp add: save_def delete_def create_checkpoint_def list_checkpoints_def
      dir_exists_def is_hidden_def file_exists_def exists_def get_def
      dir_exists_body_def is_hidden_body_def file_exists_body_def exists_body_def get_body_def
      path_dispatch1_unresolved path_dispatch2_unresolved path_dispatch_kwarg_unresolved
      call_super_api api_names root_join_strip)

lemma demo_notes:
  "strip_sep ''/notes/a/'' = ''notes/a''" "resolve demo_cm ''/notes/a/'' = None"
  "mixed_path demo_cm = ''mixed''"
  by (simp_all add: resolve_def split_path_def strip_sep_def lstrip_sep_def rstrip_sep_def
      get_cm_def demo_cm_def Let_def)

theorem fallback_default_backend_witness:
  "resolve demo_cm ''/notes/a/'' = None \<and>
   dir_exists demo_env demo_cm ''/notes/a/'' [] =
     (Inr (PList [PStr ''dir_exists'', PStr ''/notes/a'']), [(''dir_exists'', [PStr ''/notes/a''])]) \<and>
   get demo_env demo_cm ''/notes/a/'' [(''content'', PBool False)] [] =
     (Inr (PList [PStr ''get'', PStr ''/notes/a'']), [(''get'', [PStr ''/notes/a''])]) \<and>
   save demo_env demo_cm (PDict []) ''/notes/a/'' [] =
     (Inr (PList [PStr ''save'', PDict [], PStr ''notes/a'']), [(''save'', [PDict [], PStr ''notes/a''])]) \<and>
   delete demo_env demo_cm ''/notes/a/'' [] =
     (Inr (PList [PStr ''delete'', PStr ''notes/a'']), [(''delete'', [PStr ''notes/a''])])"
  using fallback_default_backend [of demo_cm "''/notes/a/''" demo_env "[]" "[(''content'', PBool False)]" "PDict []"]
  by (simp add: demo_notes demo_env_def)

text \<open>
  The claim C9 as stated fails: for the path \<^verbatim>\<open>notes\<close>, which resolves to no mounted
  manager and is neither empty nor the prefix, \<open>dir_exists\<close> hands \<^verbatim>\<open>/notes\<close> to the
  base class, and what it returns differs from what the base class returns for the
  original path.
\<close>

theorem fallback_counterexample:
  "resolve demo_cm ''notes'' = None \<and>
   dir_exists demo_env demo_cm ''notes'' [] =
     default_op demo_env ''dir_exists'' [PStr ''/notes''] [] [] \<and>
   dir_exists demo_env demo_cm ''notes'' [] \<noteq>
     default_op demo_env ''dir_exists'' [PStr ''notes''] [] []"
  by (simp add: resolve_def split_path_def strip_sep_def lstrip_sep_def rstrip_sep_def get_cm_def
      demo_cm_def dir_exists_def path_dispatch1_def dir_exists_body_def call_super_def
      contents_api_def os_path_join_def demo_env_def Let_def)

section \<open>Checkpoints outside the mounts\<close>

text \<open>
  Claim C3 says that, for a path that resolves to no mounted manager, restoring and
  deleting a checkpoint call \<^verbatim>\<open>restore_checkpoint\<close> and \<^verbatim>\<open>delete_checkpoint\<close> of the
  base class with the checkpoint identifier and the path. The source does neither: it
  looks up \<^verbatim>\<open>restore_checkpoints\<close> and \<^verbatim>\<open>delete_checkpoints\<close>, which the interface
  does not have, and both operations raise \<^verbatim>\<open>AttributeError\<close> without calling anything,
  whatever the checkpoint identifier.
\<close>

theorem checkpoint_fallback_raises:
  assumes "resolve self path = None"
  shows "restore_checkpoint env self checkpoint_id path w =
           (Inl (AttributeError ''restore_checkpoints''), w) \<and>
         delete_checkpoint env self checkpoint_id path w =
           (Inl (AttributeError ''delete_checkpoints''), w)"
  using assms
  by (simp add: restore_checkpoint_def delete_checkpoint_def path_dispatch2_unresolved
      call_super_def not_api_names)

theorem checkpoint_fallback_raises_witness:
  "resolve demo_cm ''/notes/a/'' = None \<and>
   restore_checkpoint demo_env demo_cm (PStr ''cp1'') ''/notes/a/'' [] =
     (Inl (AttributeError ''restore_checkpoints''), []) \<and>
   restore_checkpoint demo_env demo_cm (PStr ''cp1'') ''/notes/a/'' [] \<noteq>
     default_op demo_env ''restore_checkpoint'' [PStr ''cp1'', PStr ''notes/a''] [] [] \<and>
   delete_checkpoint demo_env demo_cm (PStr ''cp1'') ''/notes/a/'' [] =
     (Inl (AttributeError ''delete_checkpoints''), [])"
  using checkpoint_fallback_raises [of demo_cm "''/notes/a/''" demo_env "PStr ''cp1''" "[]"]
  by (simp add: demo_notes demo_env_def)

section \<open>Renaming\<close>

text \<open>
  What \<open>rename\<close> does: it compares the two stripped paths, not the mount names, and looks
  the whole stripped path up in the mount table.
\<close>

lemma rename_code:
  "rename env self old_path new_path w =
     (if strip_sep old_path \<noteq> strip_sep new_path then (Inl cross_mount_rename, w)
      else (case dict_get (managers self) (strip_sep new_path) of
              None \<Rightarrow> default_op env ''rename'' [PStr old_path, PStr new_path] [] w
            | Some man \<Rightarrow>
                (case backend_op env man ''rename''
                        [PStr (join_sep (tl (segments old_path))),
                         PStr (join_sep (tl (segments new_path)))] [] w of
                   (Inl e, w') \<Rightarrow> (Inl e, w')
                 | (Inr sub, w') \<Rightarrow> (Inl (AttributeError ''fix_path''), w'))))"
  by (simp add: rename_def path_dispatch_rename_def split_path_segments call_super_api
      call_backend_api api_names split: option.splits)

text \<open>
  Claim C1 says that renaming \<^verbatim>\<open>mixed/space1/x\<close> to \<^verbatim>\<open>mixed/space2/y\<close> fails with
  the cross-mount error and that renaming it to \<^verbatim>\<open>mixed/space1/y\<close> calls the rename of
  the manager of \<open>space1\<close> with \<^verbatim>\<open>x\<close> and \<^verbatim>\<open>y\<close>. The source rejects both: the two
  stripped paths differ, so the second rename raises the cross-mount error as well, for
  every environment and mount table, and no manager is called.
\<close>

theorem rename_within_mount_rejected:
  "rename env self ''mixed/space1/x'' ''mixed/space2/y'' w = (Inl cross_mount_rename, w) \<and>
   rename env self ''mixed/space1/x'' ''mixed/space1/y'' w = (Inl cross_mount_rename, w)"
  by (simp add: rename_code strip_sep_def lstrip_sep_def rstrip_sep_def)

theorem rename_within_mount_rejected_witness:
  "resolve demo_cm ''mixed/space1/x'' = Some (space_manager 0 ''/space1'') \<and>
   resolve demo_cm ''mixed/space1/y'' = Some (space_manager 0 ''/space1'') \<and>
   rename demo_env demo_cm ''mixed/space1/x'' ''mixed/space1/y'' [] = (Inl cross_mount_rename, []) \<and>
   rename demo_env demo_cm ''mixed/space1/x'' ''mixed/space1/y'' [] \<noteq>
     backend_op demo_env (space_manager 0 ''/space1'') ''rename'' [PStr ''x'', PStr ''y''] [] []"
  using rename_within_mount_rejected [of demo_env demo_cm "[]"]
  by (simp add: resolve_def split_path_def strip_sep_def lstrip_sep_def rstrip_sep_def
      get_cm_def demo_cm_def Let_def dict_get_def demo_env_def)

section \<open>Updating a model\<close>

lemma drop1_tl: "drop (Suc 0) (tl xs) = drop 2 xs"
  by (cases xs) (simp_all add: drop_Suc numeral_2_eq_2)

lemma get_cm_Some:
  "get_cm self s l = Some man \<Longrightarrow> s = mixed_path self \<and> l \<noteq> [] \<and> dict_get (managers self) (hd l) = Some man"
  by (cases l) (auto simp: get_cm_def split: if_splits)

text \<open>
  Claim C2. For every model that is a dictionary with a string under \<^verbatim>\<open>path\<close>, and
  every path: when the path and the model's path resolve differently, \<open>update\<close> fails
  with the cross-mount error and calls nothing; when both resolve to the same mounted
  manager, that manager's \<^verbatim>\<open>update\<close> is called with the model whose path is the
  backend-local form of the model's path and with the backend-local form of the path,
  and its result goes through \<open>fix_paths\<close> with the prefix joined to the mount name;
  when neither resolves, the base class's \<^verbatim>\<open>update\<close> is called with the model and the
  path as they were given.
\<close>

theorem update_dispatch:
  assumes "dict_get d ''path'' = Some (PStr mp)"
  shows "(resolve self path \<noteq> resolve self mp \<longrightarrow>
            update env self (PDict d) path w = (Inl cross_mount_update, w)) \<and>
         (\<forall>man. resolve self path = Some man \<and> resolve self mp = Some man \<longrightarrow>
            update env self (PDict d) path w =
              (case backend_op env man ''update''
                      [PDict (dict_set d ''path'' (PStr (backend_local mp))),
                       PStr (backend_local path)] [] w of
                 (Inl e, w') \<Rightarrow> (Inl e, w')
               | (Inr sub, w') \<Rightarrow> (fix_paths sub (mount_base self path), w'))) \<and>
         (resolve self path = None \<and> resolve self mp = None \<longrightarrow>
            update env self (PDict d) path w = default_op env ''update'' [PDict d, PStr path] [] w)"
proof (intro conjI allI impI)
  assume "resolve self path \<noteq> resolve self mp"
  with assms show "update env self (PDict d) path w = (Inl cross_mount_update, w)"
    by (simp add: update_def split_path_segments resolve_eq)
next
  fix man
  assume r: "resolve self path = Some man \<and> resolve self mp = Some man"
  then have g: "get_cm self (hd (segments path)) (tl (segments path)) = Some man"
    and gm: "get_cm self (hd (segments mp)) (tl (segments mp)) = Some man"
    by (simp_all add: resolve_eq)
  from get_cm_Some [OF g] obtain mount rest where
    l: "tl (segments path) = mount # rest" and s: "hd (segments path) = mixed_path self"
    by (cases "tl (segments path)") auto
  have rest: "rest = drop 2 (segments path)"
    using l drop1_tl [of "segments path"] by simp
  have mb: "mount_base self path = os_path_join (mixed_path self) mount"
    using l by (simp add: mount_base_def)
  show "update env self (PDict d) path w =
      (case backend_op env man ''update''
              [PDict (dict_set d ''path'' (PStr (backend_local mp))),
               PStr (backend_local path)] [] w of
         (Inl e, w') \<Rightarrow> (Inl e, w')
       | (Inr sub, w') \<Rightarrow> (fix_paths sub (mount_base self path), w'))"
    unfolding mb backend_local_def
    using assms g gm l s rest
    by (simp add: update_def split_path_segments call_backend_api api_names drop1_tl)
next
  assume "resolve self path = None \<and> resolve self mp = None"
  with assms show "update env self (PDict d) path w = default_op env ''update'' [PDict d, PStr path] [] w"
    by (simp add: update_def split_path_segments resolve_eq call_super_api api_names)
qed

lemma demo_resolve:
  "resolve demo_cm ''/mixed/space1/a/c'' = Some (space_manager 0 ''/space1'')"
  "resolve demo_cm ''mixed/space1/a/b'' = Some (space_manager 0 ''/space1'')"
  "resolve demo_cm ''mixed/space2/a/b'' = Some (space_manager 1 ''/space2'')"
  "resolve demo_cm ''a/b'' = None"
  "resolve demo_cm ''/a/c/'' = None"
  by (simp_all add: resolve_def split_path_def strip_sep_def lstrip_sep_def rstrip_sep_def
      get_cm_def demo_cm_def Let_def dict_get_def)

lemma demo_local:
  "backend_local ''/mixed/space1/a/c'' = ''a/c''"
  "backend_local ''mixed/space1/a/b'' = ''a/b''"
  "mount_base demo_cm ''/mixed/space1/a/c'' = ''mixed/space1''"
  by (simp_all add: backend_local_def mount_base_def segments_def strip_sep_def lstrip_sep_def
      rstrip_sep_def demo_cm_def os_path_join_def)

theorem update_dispatch_witness:
  "update demo_env demo_cm (PDict [(''path'', PStr ''mixed/space2/a/b'')]) ''/mixed/space1/a/c'' [] =
     (Inl cross_mount_update, []) \<and>
   update demo_env demo_cm (PDict [(''path'', PStr ''mixed/space1/a/b'')]) ''/mixed/space1/a/c'' [] =
     (Inr (PDict [(''path'', PStr ''mixed/space1/a/b'')]),
      [(''update'', [PDict [(''path'', PStr ''a/b'')], PStr ''a/c''])]) \<and>
   update demo_env demo_cm (PDict [(''path'', PStr ''a/b'')]) ''/a/c/'' [] =
     (Inr (PList [PStr ''update'', PDict [(''path'', PStr ''a/b'')], PStr ''/a/c/'']),
      [(''update'', [PDict [(''path'', PStr ''a/b'')], PStr ''/a/c/''])])"
proof -
  have p: "\<And>x. dict_get [(''path'', PStr x)] ''path'' = Some (PStr x)"
    by (simp add: dict_get_def)
  have fx: "fix_paths (PDict [(''path'', PStr ''a/b'')]) ''mixed/space1'' =
      Inr (PDict [(''path'', PStr ''mixed/space1/a/b'')])"
    by (simp add: fix_paths_def dict_get_def os_path_join_def)
  have a: "update demo_env demo_cm (PDict [(''path'', PStr ''mixed/space2/a/b'')])
      ''/mixed/space1/a/c'' [] = (Inl cross_mount_update, [])"
    using update_dispatch [OF p, of demo_cm "''/mixed/space1/a/c''" "''mixed/space2/a/b''" demo_env "[]"]
    by (simp add: demo_resolve space_manager_def)
  have b: "update demo_env demo_cm (PDict [(''path'', PStr ''mixed/space1/a/b'')])
      ''/mixed/space1/a/c'' [] =
     (Inr (PDict [(''path'', PStr ''mixed/space1/a/b'')]),
      [(''update'', [PDict [(''path'', PStr ''a/b'')], PStr ''a/c''])])"
    using update_dispatch [OF p, of demo_cm "''/mixed/space1/a/c''" "''mixed/space1/a/b''" demo_env "[]"]
    by (simp add: demo_resolve demo_local fx demo_env_def)
  have c: "update demo_env demo_cm (PDict [(''path'', PStr ''a/b'')]) ''/a/c/'' [] =
     (Inr (PList [PStr ''update'', PDict [(''path'', PStr ''a/b'')], PStr ''/a/c/'']),
      [(''update'', [PDict [(''path'', PStr ''a/b'')], PStr ''/a/c/''])])"
    using update_dispatch [OF p, of demo_cm "''/a/c/''" "''a/b''" demo_env "[]"]
    by (simp add: demo_resolve demo_env_def)
  from a b c show ?thesis by (intro conjI)
qed

section \<open>The mount table\<close>

lemma setattrs_Nil: "setattrs b [] = b"
  by (simp add: setattrs_def)

text \<open>
  When every constructor succeeds and the names are distinct and new, the loop appends one
  instance per entry of the scheme, numbered in order.
\<close>

lemma build_managers_all:
  assumes "\<forall>s\<in>set ss. \<forall>v. fst (instantiate env (cls s) v) = None"
    and "distinct (map root ss)"
    and "set (map root ss) \<inter> fst ` set ms = {}"
  shows "\<exists>w'. build_managers env ss n ms w =
           (Inr (ms @ map (\<lambda>(i, s). (root s, instance_of i s)) (enumerate n ss)), w')"
  using assms
proof (induction ss arbitrary: n ms w)
  case Nil
  then show ?case by simp
next
  case (Cons s ss)
  obtain v where i: "instantiate env (cls s) w = (None, v)"
    using Cons.prems(1) by (cases "instantiate env (cls s) w") (auto dest: spec [of _ w])
  let ?man = "instance_of n s"
  have fresh: "root s \<notin> fst ` set ms" using Cons.prems(3) by auto
  have step: "build_managers env (s # ss) n ms w = build_managers env ss (Suc n) (ms @ [(root s, ?man)]) v"
    using i fresh by (simp add: instance_of_def setattrs_Nil dict_set_fresh Let_def)
  have "set (map root ss) \<inter> fst ` set (ms @ [(root s, ?man)]) = {}"
    using Cons.prems(2,3) by auto
  with Cons.IH [of "ms @ [(root s, ?man)]" "Suc n" v] Cons.prems(1,2)
  obtain w' where "build_managers env ss (Suc n) (ms @ [(root s, ?man)]) v =
      (Inr ((ms @ [(root s, ?man)]) @ map (\<lambda>(i, s). (root s, instance_of i s)) (enumerate (Suc n) ss)), w')"
    by auto
  with step show ?case by simp
qed

lemma table_keys:
  "map fst (map (\<lambda>(i, s). (root s, instance_of i s)) (enumerate n fs)) = map root fs"
  by (induction fs arbitrary: n) simp_all

lemma table_lookup:
  assumes "distinct (map root fs)" and "i < length fs"
  shows "dict_get (map (\<lambda>(i, s). (root s, instance_of i s)) (enumerate 0 fs)) (root (fs ! i)) =
           Some (instance_of i (fs ! i))"
proof -
  let ?t = "map (\<lambda>(i, s). (root s, instance_of i s)) (enumerate 0 fs)"
  have keys: "map fst ?t = map root fs"
    by (rule table_keys)
  have "enumerate 0 fs ! i = (i, fs ! i)" using assms(2) by (simp add: nth_enumerate_eq)
  then have "?t ! i = (root (fs ! i), instance_of i (fs ! i))" using assms(2) by simp
  then have "(root (fs ! i), instance_of i (fs ! i)) \<in> set ?t"
    using assms(2) by (metis length_enumerate length_map nth_mem)
  with assms(1) keys show ?thesis by (simp add: dict_get_def)
qed

text \<open>
  Claim C5. When two entries of the scheme share a mount name, the construction fails
  with the duplicate-mount error and the world is unchanged, for every environment: the
  check comes before the first constructor call, so no backend is made. When the names
  are pairwise distinct (and the constructors of the backend classes do not fail), the
  construction succeeds, the table has the names of the scheme in order, and every name
  maps to the instance made for its entry.
\<close>

theorem init_mount_table:
  "(\<not> distinct (map root fs) \<longrightarrow> init env mp fs w = (Inl duplicate_mount, w)) \<and>
   (distinct (map root fs) \<and> (\<forall>s\<in>set fs. \<forall>v. fst (instantiate env (cls s) v) = None) \<longrightarrow>
      (\<exists>self w'. init env mp fs w = (Inr self, w') \<and> mixed_path self = mp \<and>
         map fst (managers self) = map root fs \<and>
         (\<forall>i<length fs. dict_get (managers self) (root (fs ! i)) = Some (instance_of i (fs ! i)))))"
proof (intro conjI impI)
  assume "\<not> distinct (map root fs)"
  then have "card (set (map root fs)) \<noteq> length fs"
    using card_distinct [of "map root fs"] by auto
  then show "init env mp fs w = (Inl duplicate_mount, w)"
    by (simp add: init_def)
next
  assume a: "distinct (map root fs) \<and> (\<forall>s\<in>set fs. \<forall>v. fst (instantiate env (cls s) v) = None)"
  then have c: "card (set (map root fs)) = length fs"
    using distinct_card [of "map root fs"] by simp
  let ?t = "map (\<lambda>(i, s). (root s, instance_of i s)) (enumerate 0 fs)"
  from a build_managers_all [of fs env "[]" 0 w]
  obtain w' where b: "build_managers env fs 0 [] w = (Inr ?t, w')" by auto
  have keys: "map fst ?t = map root fs"
    by (rule table_keys)
  have "init env mp fs w = (Inr \<lparr>mixed_path = mp, managers = ?t\<rparr>, w')"
    using b c by (simp add: init_def)
  with keys a table_lookup [of fs] 
  show "\<exists>self w'. init env mp fs w = (Inr self, w') \<and> mixed_path self = mp \<and>
         map fst (managers self) = map root fs \<and>
         (\<forall>i<length fs. dict_get (managers self) (root (fs ! i)) = Some (instance_of i (fs ! i)))"
    by auto
qed

lemma demo_scheme_facts:
  "distinct (map root demo_scheme)"
  "\<not> distinct (map root (demo_scheme @ demo_scheme))"
  "\<forall>s\<in>set demo_scheme. \<forall>v. fst (instantiate demo_env (cls s) v) = None"
  "length demo_scheme = 2"
  "root (demo_scheme ! 1) = ''space2''"
  "instance_of 1 (demo_scheme ! 1) = space_manager 1 ''/space2''"
  by (simp_all add: demo_scheme_def demo_env_def instance_of_def setattrs_def space_manager_def)

theorem init_mount_table_witness:
  "init demo_env ''mixed'' (demo_scheme @ demo_scheme) [] = (Inl duplicate_mount, []) \<and>
   (\<exists>self w'. init demo_env ''mixed'' demo_scheme [] = (Inr self, w') \<and>
      map fst (managers self) = [''space1'', ''space2''] \<and>
      dict_get (managers self) ''space2'' = Some (space_manager 1 ''/space2''))"
proof -
  have a: "init demo_env ''mixed'' (demo_scheme @ demo_scheme) [] = (Inl duplicate_mount, [])"
    using init_mount_table [of "demo_scheme @ demo_scheme" demo_env "''mixed''" "[]"]
      demo_scheme_facts(2) by blast
  obtain self w' where i: "init demo_env ''mixed'' demo_scheme [] = (Inr self, w')"
    and k: "map fst (managers self) = map root demo_scheme"
    and l: "\<forall>i<length demo_scheme.
              dict_get (managers self) (root (demo_scheme ! i)) = Some (instance_of i (demo_scheme ! i))"
    using init_mount_table [of demo_scheme demo_env "''mixed''" "[]"] demo_scheme_facts(1,3)
    by blast
  from l have m: "dict_get (managers self) ''space2'' = Some (space_manager 1 ''/space2'')"
    using demo_scheme_facts(4,5,6) by (metis one_less_numeral_iff semiring_norm(76))
  from k have n: "map fst (managers self) = [''space1'', ''space2'']"
    by (simp add: demo_scheme_def)
  have "\<exists>self w'. init demo_env ''mixed'' demo_scheme [] = (Inr self, w') \<and>
      map fst (managers self) = [''space1'', ''space2''] \<and>
      dict_get (managers self) ''space2'' = Some (space_manager 1 ''/space2'')"
    by (rule exI [of _ self], rule exI [of _ w']) (simp only: i m n simp_thms)
  with a show ?thesis by (rule conjI)
qed

section \<open>Rewriting results\<close>

lemma key_in_dict: "(k \<in> fst ` set d) = (dict_get d k \<noteq> None)"
  by (simp add: dict_get_def map_of_eq_None_iff)

lemma fix_child_record: "child_record c \<Longrightarrow> fix_child base c = Inr (rewrite_child base c)"
  by (auto simp: child_record_def fix_child_def rewrite_child_def key_in_dict
      split: pyval.splits option.splits)

lemma fix_children_records:
  "\<forall>c\<in>set cs. child_record c \<Longrightarrow> fix_children base cs = Inr (map (rewrite_child base) cs)"
  by (induction cs) (simp_all add: fix_child_record)

lemma rewrite_child_other_keys:
  "k \<noteq> ''path'' \<Longrightarrow> py_getitem (rewrite_child base c) k = py_getitem c k"
  by (auto simp: rewrite_child_def dict_get_dict_set split: pyval.splits option.splits)

lemma rewrite_own_other_keys: "k \<noteq> ''path'' \<Longrightarrow> dict_get (rewrite_own base d) k = dict_get d k"
  by (auto simp: rewrite_own_def dict_get_dict_set split: pyval.splits option.splits)

text \<open>\<open>fix_paths\<close> on a record whose own path, if any, is a string.\<close>

lemma fix_paths_own:
  assumes "dict_get d ''path'' = None \<or> (\<exists>p. dict_get d ''path'' = Some (PStr p))"
  shows "fix_paths (PDict d) base =
     (if listing d
      then (case dict_get d ''content'' of
              None \<Rightarrow> Inr (PDict (rewrite_own base d))
            | Some c \<Rightarrow>
                (case fix_content base c of
                   Inl err \<Rightarrow> Inl err
                 | Inr c' \<Rightarrow> Inr (PDict (dict_set (rewrite_own base d) ''content'' c'))))
      else Inr (PDict (rewrite_own base d)))"
  using assms
  by (auto simp: fix_paths_def key_in_dict rewrite_own_def listing_def dict_get_dict_set
      split: option.splits sum.splits)

text \<open>
  Claim C6. \<open>fix_paths\<close> returns a value that is not a dictionary unchanged. On a record
  with a string path that is not a directory with non-empty content it replaces the path
  by the base path joined with it: \<^verbatim>\<open>a/b\<close> under \<^verbatim>\<open>mixed/space1\<close> becomes
  \<^verbatim>\<open>mixed/space1/a/b\<close>. On a directory record with a non-empty list of child records
  it does the same to the record's own path and replaces the content by the children
  rewritten one by one, where a child with a path gets the base path joined with its
  path stripped of leading separators (\<^verbatim>\<open>/c\<close> becomes \<^verbatim>\<open>mixed/space1/c\<close>) and a
  child without one stays as it is. Every other field of a child, its own content (the
  grandchildren) included, is the same before and after.
\<close>

theorem fix_paths_rewrite:
  "((\<forall>d. sub \<noteq> PDict d) \<longrightarrow> fix_paths sub base = Inr sub) \<and>
   (dict_get d ''path'' = Some (PStr p) \<and> \<not> listing d \<longrightarrow>
      fix_paths (PDict d) base = Inr (PDict (dict_set d ''path'' (PStr (os_path_join base p))))) \<and>
   os_path_join ''mixed/space1'' ''a/b'' = ''mixed/space1/a/b'' \<and>
   (listing d \<and> dict_get d ''content'' = Some (PList cs) \<and> (\<forall>c\<in>set cs. child_record c) \<and>
    (dict_get d ''path'' = None \<or> (\<exists>p. dict_get d ''path'' = Some (PStr p))) \<longrightarrow>
      fix_paths (PDict d) base =
        Inr (PDict (dict_set (rewrite_own base d) ''content'' (PList (map (rewrite_child base) cs))))) \<and>
   rewrite_child ''mixed/space1'' (PDict [(''path'', PStr ''/c'')]) =
     PDict [(''path'', PStr ''mixed/space1/c'')] \<and>
   (\<forall>k. k \<noteq> ''path'' \<longrightarrow> py_getitem (rewrite_child base c) k = py_getitem c k)"
proof (intro conjI impI allI)
  assume "\<forall>d. sub \<noteq> PDict d"
  then show "fix_paths sub base = Inr sub"
    by (cases sub) (simp_all add: fix_paths_def)
next
  assume "dict_get d ''path'' = Some (PStr p) \<and> \<not> listing d"
  then show "fix_paths (PDict d) base = Inr (PDict (dict_set d ''path'' (PStr (os_path_join base p))))"
    by (simp add: fix_paths_own rewrite_own_def)
next
  show "os_path_join ''mixed/space1'' ''a/b'' = ''mixed/space1/a/b''"
    by (simp add: os_path_join_def)
next
  assume a: "listing d \<and> dict_get d ''content'' = Some (PList cs) \<and> (\<forall>c\<in>set cs. child_record c) \<and>
    (dict_get d ''path'' = None \<or> (\<exists>p. dict_get d ''path'' = Some (PStr p)))"
  then have "fix_content base (PList cs) = Inr (PList (map (rewrite_child base) cs))"
    by (simp add: fix_content_def fix_children_records)
  with a show "fix_paths (PDict d) base =
        Inr (PDict (dict_set (rewrite_own base d) ''content'' (PList (map (rewrite_child base) cs))))"
    by (simp add: fix_paths_own)
next
  show "rewrite_child ''mixed/space1'' (PDict [(''path'', PStr ''/c'')]) =
     PDict [(''path'', PStr ''mixed/space1/c'')]"
    by (simp add: rewrite_child_def dict_get_def os_path_join_def lstrip_sep_def)
next
  fix k :: string
  assume "k \<noteq> ''path''"
  then show "py_getitem (rewrite_child base c) k = py_getitem c k"
    by (rule rewrite_child_other_keys)
qed

lemma demo_listing_facts:
  "listing demo_listing"
  "dict_get demo_listing ''content'' = Some (PList [PDict [(''path'', PStr ''/c''), (''type'', PStr ''directory''),
                 (''content'', PList [PDict [(''path'', PStr ''g'')]])]])"
  "dict_get demo_listing ''path'' = Some (PStr ''a/b'')"
  "child_record (PDict [(''path'', PStr ''/c''), (''type'', PStr ''directory''),
                 (''content'', PList [PDict [(''path'', PStr ''g'')]])])"
  by (simp_all add: demo_listing_def listing_def dict_get_def child_record_def)

theorem fix_paths_rewrite_witness:
  "fix_paths (PBool True) ''mixed/space1'' = Inr (PBool True) \<and>
   fix_paths (PDict [(''name'', PStr ''b''), (''path'', PStr ''a/b'')]) ''mixed/space1'' =
     Inr (PDict [(''name'', PStr ''b''), (''path'', PStr ''mixed/space1/a/b'')]) \<and>
   fix_paths (PDict demo_listing) ''mixed/space1'' =
     Inr (PDict [(''type'', PStr ''directory''), (''path'', PStr ''mixed/space1/a/b''),
              (''content'', PList [PDict [(''path'', PStr ''mixed/space1/c''), (''type'', PStr ''directory''),
                 (''content'', PList [PDict [(''path'', PStr ''g'')]])]])])"
proof -
  have a: "fix_paths (PBool True) ''mixed/space1'' = Inr (PBool True)"
    using fix_paths_rewrite [of "PBool True" "''mixed/space1''"] by simp
  have b: "fix_paths (PDict [(''name'', PStr ''b''), (''path'', PStr ''a/b'')]) ''mixed/space1'' =
     Inr (PDict [(''name'', PStr ''b''), (''path'', PStr ''mixed/space1/a/b'')])"
    using fix_paths_rewrite [of _ "''mixed/space1''" "[(''name'', PStr ''b''), (''path'', PStr ''a/b'')]" "''a/b''"]
    by (simp add: dict_get_def listing_def)
  have c: "fix_paths (PDict demo_listing) ''mixed/space1'' =
     Inr (PDict [(''type'', PStr ''directory''), (''path'', PStr ''mixed/space1/a/b''),
              (''content'', PList [PDict [(''path'', PStr ''mixed/space1/c''), (''type'', PStr ''directory''),
                 (''content'', PList [PDict [(''path'', PStr ''g'')]])]])])"
    using fix_paths_rewrite [of _ "''mixed/space1''" demo_listing _
        "[PDict [(''path'', PStr ''/c''), (''type'', PStr ''directory''),
                 (''content'', PList [PDict [(''path'', PStr ''g'')]])]]"]
    by (simp add: demo_listing_facts)
      (simp add: demo_listing_def rewrite_own_def rewrite_child_def dict_get_def os_path_join_def lstrip_sep_def)
  from a b c show ?thesis by (intro conjI)
qed

section \<open>The listing of the mount points\<close>

text \<open>
  On time stamps of one kind \<^verbatim>\<open>max\<close> and \<^verbatim>\<open>min\<close> are the greatest and the least;
  on a naive and an aware time stamp they raise.
\<close>

lemma max_from_times: "max_from (PTime a m) (map (PTime a) ts) = Inr (PTime a (fold max ts m))"
proof (induction ts arbitrary: m)
  case Nil
  show ?case by simp
next
  case (Cons t ts)
  have "(if m < t then PTime a t else PTime a m) = PTime a (max t m)" by (simp add: max_def)
  with Cons show ?case by simp
qed

lemma min_from_times: "min_from (PTime a m) (map (PTime a) ts) = Inr (PTime a (fold min ts m))"
proof (induction ts arbitrary: m)
  case Nil
  show ?case by simp
next
  case (Cons t ts)
  have "(if t < m then PTime a t else PTime a m) = PTime a (min t m)" by (simp add: min_def)
  with Cons show ?case by (simp add: py_lt_def)
qed

lemma py_max_times: "ts \<noteq> [] \<Longrightarrow> py_max (map (PTime a) ts) = Inr (PTime a (Max (set ts)))"
  by (cases ts) (simp_all add: max_from_times Max.set_eq_fold del: set_simps)

lemma py_min_times: "ts \<noteq> [] \<Longrightarrow> py_min (map (PTime a) ts) = Inr (PTime a (Min (set ts)))"
  by (cases ts) (simp_all add: min_from_times Min.set_eq_fold del: set_simps)

lemma py_max_mixed:
  "py_max [PTime Naive s, PTime Aware t] = Inl TypeError"
  "py_max [PTime Aware s, PTime Naive t] = Inl TypeError"
  by simp_all

text \<open>
  The loop of \<open>get\<close> over the mount table, when every fetch either raises or returns a
  model with a time stamp of the kind \<open>aw\<close>: it collects the summary entries and the
  time stamps of the fetches that returned, in the order of the table.
\<close>

lemma stamped_cases:
  assumes "stamped aw (name, r)"
  obtains d t where "r = Inr (PDict d)" and "dict_get d ''last_modified'' = Some (PTime aw t)"
proof (cases r)
  case (Inl e)
  with assms show ?thesis by simp
next
  case (Inr v)
  with assms that show ?thesis
    by (cases v) (auto split: option.splits pyval.splits)
qed

lemma stamped_not_raised: "stamped aw r \<Longrightarrow> \<not> raised r"
  by (cases r, case_tac b) simp_all

lemma mount_entry_stamped:
  assumes "dict_get d ''last_modified'' = Some (PTime aw t)"
  shows "mount_entry self name (PDict d) = Inr (summary_entry self (name, Inr (PDict d)))"
    and "py_getitem (summary_entry self (name, Inr (PDict d))) ''last_modified'' = Inr (PTime aw t)"
    and "stamp_of (name, Inr (PDict d)) = t"
  using assms by (simp_all add: mount_entry_def dict_get_dict_set)

lemma collect_roots_fetch:
  assumes "\<forall>r\<in>set (fst (fetch_roots env kw ms w)). raised r \<or> stamped aw r"
  shows "collect_roots env self kw ms content lm w =
     (content @ map (summary_entry self) (filter (stamped aw) (fst (fetch_roots env kw ms w))),
      lm @ map (PTime aw) (map stamp_of (filter (stamped aw) (fst (fetch_roots env kw ms w)))),
      snd (fetch_roots env kw ms w))"
  using assms
proof (induction ms arbitrary: content lm w)
  case Nil
  show ?case by simp
next
  case (Cons nm ms)
  obtain name manager where nm: "nm = (name, manager)" by (cases nm)
  obtain r w' where b: "backend_op env manager ''get'' [PStr [sep]] kw w = (r, w')"
    by (cases "backend_op env manager ''get'' [PStr [sep]] kw w")
  obtain rs w'' where f: "fetch_roots env kw ms w' = (rs, w'')"
    by (cases "fetch_roots env kw ms w'")
  have all: "fetch_roots env kw (nm # ms) w = ((name, r) # rs, w'')"
    using nm b f by simp
  have rest: "\<forall>r\<in>set (fst (fetch_roots env kw ms w')). raised r \<or> stamped aw r"
    using Cons.prems all f by simp
  have cb: "call_backend env manager ''get'' [PStr [sep]] kw w = (r, w')"
    using b by (simp add: call_backend_api api_names)
  have here: "raised (name, r) \<or> stamped aw (name, r)"
    using Cons.prems all by simp
  show ?case
  proof (cases "stamped aw (name, r)")
    case True
    then obtain d t where r: "r = Inr (PDict d)"
      and t: "dict_get d ''last_modified'' = Some (PTime aw t)"
      by (rule stamped_cases)
    show ?thesis
      using Cons.IH [OF rest] nm cb all f r True mount_entry_stamped [OF t]
      by simp
  next
    case False
    with here obtain e where r: "r = Inl e" by (cases r) auto
    show ?thesis
      using Cons.IH [OF rest] nm cb all f r False
      by simp
  qed
qed

text \<open>\<open>get\<close> on the prefix alone runs the loop and aggregates.\<close>

lemma get_bare_prefix:
  assumes "strip_sep path = mixed_path self" and "mixed_path self \<noteq> []"
  shows "get env self path kw w =
     (case collect_roots env self kw (managers self) [] [] w of
        (content, lm, w') \<Rightarrow>
          (case py_max lm of
             Inl e \<Rightarrow> (Inl e, w')
           | Inr newest \<Rightarrow>
               (case py_min lm of
                  Inl e \<Rightarrow> (Inl e, w')
                | Inr oldest \<Rightarrow>
                    (Inr (PDict (dict_set (dict_set (dict_set (empty_listing self)
                             ''content'' (PList content))
                             ''last_modified'' newest)
                             ''created'' oldest)), w'))))"
proof -
  have "resolve self path = None" using assms(1) by (simp add: resolve_bare_prefix)
  then show ?thesis
    using assms by (simp add: get_def path_dispatch1_unresolved get_body_def)
qed

lemma fetched_stamped:
  assumes "\<forall>r\<in>set rs. raised r \<or> stamped aw r"
  shows "filter (stamped aw) rs = fetched rs"
  unfolding fetched_def
proof (rule filter_cong [OF refl])
  fix r
  assume "r \<in> set rs"
  with assms have "raised r \<or> stamped aw r" by simp
  then show "stamped aw r = (\<not> raised r)"
    using stamped_not_raised [of aw r] by blast
qed

text \<open>
  Claim C7. Let \<open>get\<close> be called on the bare virtual-prefix path, let every root fetch
  either raise or return a model whose \<^verbatim>\<open>last_modified\<close> is a time stamp of one and the
  same kind \<open>aw\<close> (all offset-naive or all offset-aware, so that any two of them can be
  compared), and let at least one fetch return. Then \<open>get\<close> returns a directory record
  whose \<^verbatim>\<open>last_modified\<close> is the maximum and whose \<^verbatim>\<open>created\<close> is the minimum of the
  time stamps of the fetches that returned, and whose content is the list of their
  summary entries: a mount whose fetch raised is left out and the listing does not fail.
\<close>

theorem root_listing_stamps:
  assumes "strip_sep path = mixed_path self" and "mixed_path self \<noteq> []"
    and "\<forall>r\<in>set (root_fetches env self kw w). raised r \<or> stamped aw r"
    and "fetched (root_fetches env self kw w) \<noteq> []"
  shows "\<exists>d. get env self path kw w = (Inr (PDict d), snd (fetch_roots env kw (managers self) w)) \<and>
     dict_get d ''last_modified'' =
       Some (PTime aw (Max (set (map stamp_of (fetched (root_fetches env self kw w)))))) \<and>
     dict_get d ''created'' =
       Some (PTime aw (Min (set (map stamp_of (fetched (root_fetches env self kw w)))))) \<and>
     dict_get d ''content'' =
       Some (PList (map (summary_entry self) (fetched (root_fetches env self kw w))))"
proof -
  let ?rs = "root_fetches env self kw w"
  let ?ts = "map stamp_of (fetched ?rs)"
  have wf: "\<forall>r\<in>set (fst (fetch_roots env kw (managers self) w)). raised r \<or> stamped aw r"
    using assms(3) by (simp add: root_fetches_def)
  have fs: "filter (stamped aw) (fst (fetch_roots env kw (managers self) w)) = fetched ?rs"
    using fetched_stamped [OF wf] by (simp add: root_fetches_def)
  have c: "collect_roots env self kw (managers self) [] [] w =
      (map (summary_entry self) (fetched ?rs), map (PTime aw) ?ts,
       snd (fetch_roots env kw (managers self) w))"
    using collect_roots_fetch [OF wf, of self "[]" "[]"] fs by simp
  have ne: "?ts \<noteq> []" using assms(4) by simp
  let ?d = "dict_set (dict_set (dict_set (empty_listing self)
             ''content'' (PList (map (summary_entry self) (fetched ?rs))))
             ''last_modified'' (PTime aw (Max (set ?ts))))
             ''created'' (PTime aw (Min (set ?ts)))"
  have g: "get env self path kw w = (Inr (PDict ?d), snd (fetch_roots env kw (managers self) w))"
    using c py_max_times [OF ne, of aw] py_min_times [OF ne, of aw]
    by (simp add: get_bare_prefix [OF assms(1,2)])
  show ?thesis
  proof (intro exI conjI)
    show "get env self path kw w = (Inr (PDict ?d), snd (fetch_roots env kw (managers self) w))"
      by (rule g)
    show "dict_get ?d ''last_modified'' = Some (PTime aw (Max (set ?ts)))"
      by (simp add: dict_get_dict_set)
    show "dict_get ?d ''created'' = Some (PTime aw (Min (set ?ts)))"
      by (simp add: dict_get_dict_set)
    show "dict_get ?d ''content'' = Some (PList (map (summary_entry self) (fetched ?rs)))"
      by (simp add: dict_get_dict_set)
  qed
qed

text \<open>
  Claim C10. When \<open>get\<close> is called on the bare virtual-prefix path and every root fetch
  raises (in particular when the mount table is empty), \<open>get\<close> does not return a record:
  it raises the \<^verbatim>\<open>ValueError\<close> of \<^verbatim>\<open>max\<close> on an empty list, after all the fetches
  have been made.
\<close>

theorem root_listing_no_mount:
  assumes "strip_sep path = mixed_path self" and "mixed_path self \<noteq> []"
    and "\<forall>r\<in>set (root_fetches env self kw w). raised r"
  shows "get env self path kw w =
     (Inl (ValueError ''max() arg is an empty sequence''), snd (fetch_roots env kw (managers self) w))"
proof -
  let ?rs = "root_fetches env self kw w"
  have wf: "\<forall>r\<in>set (fst (fetch_roots env kw (managers self) w)). raised r \<or> stamped Aware r"
    using assms(3) by (simp add: root_fetches_def)
  have "fetched ?rs = []" using assms(3) by (simp add: fetched_def)
  then have fs: "filter (stamped Aware) (fst (fetch_roots env kw (managers self) w)) = []"
    using fetched_stamped [OF wf] by (simp add: root_fetches_def)
  have c: "collect_roots env self kw (managers self) [] [] w =
      ([], [], snd (fetch_roots env kw (managers self) w))"
    using collect_roots_fetch [OF wf, of self "[]" "[]"] fs by simp
  show ?thesis
    using c by (simp add: get_bare_prefix [OF assms(1,2)])
qed

lemma demo_fetches:
  "fetch_roots demo_env [] (managers demo_cm) [] =
     ([(''space1'', Inr (demo_root Aware 10)), (''space2'', Inr (demo_root Aware 20)),
       (''space3'', Inl (BackendError ''offline''))],
      [(''get'', [PStr ''/'']), (''get'', [PStr ''/'']), (''get'', [PStr ''/''])])"
  by (simp add: demo_cm_def demo_env_def space_manager_def)

lemma demo_prefix:
  "strip_sep ''/mixed/'' = mixed_path demo_cm" "mixed_path demo_cm \<noteq> []"
  by (simp_all add: demo_cm_def strip_sep_def lstrip_sep_def rstrip_sep_def)

lemma demo_fetched:
  "fetched (root_fetches demo_env demo_cm [] []) =
     [(''space1'', Inr (demo_root Aware 10)), (''space2'', Inr (demo_root Aware 20))]"
  "\<forall>r\<in>set (root_fetches demo_env demo_cm [] []). raised r \<or> stamped Aware r"
  by (simp_all add: root_fetches_def demo_fetches fetched_def demo_root_def dict_get_def)

theorem root_listing_stamps_witness:
  "\<exists>d. get demo_env demo_cm ''/mixed/'' [] [] =
         (Inr (PDict d), [(''get'', [PStr ''/'']), (''get'', [PStr ''/'']), (''get'', [PStr ''/''])]) \<and>
       dict_get d ''last_modified'' = Some (PTime Aware 20) \<and>
       dict_get d ''created'' = Some (PTime Aware 10) \<and>
       dict_get d ''content'' =
         Some (PList [summary_entry demo_cm (''space1'', Inr (demo_root Aware 10)),
                      summary_entry demo_cm (''space2'', Inr (demo_root Aware 20))])"
proof -
  have ne: "fetched (root_fetches demo_env demo_cm [] []) \<noteq> []"
    by (simp add: demo_fetched(1))
  have st: "stamp_of (''space1'', Inr (demo_root Aware 10)) = 10"
    "stamp_of (''space2'', Inr (demo_root Aware 20)) = 20"
    by (simp_all add: demo_root_def dict_get_def)
  show ?thesis
    using root_listing_stamps [OF demo_prefix demo_fetched(2) ne]
    by (simp add: demo_fetched(1) demo_fetches st)
qed

text \<open>
  The time stamps must be of one kind: \<^verbatim>\<open>max(lm)\<close> stands outside the \<^verbatim>\<open>try\<close>, and
  with an offset-aware root under \<open>space1\<close> and an offset-naive one under \<open>space4\<close> the
  comparison raises and \<open>get\<close> fails with \<^verbatim>\<open>TypeError\<close> after both fetches.
\<close>

lemma root_listing_mixed_kinds:
  "get demo_env
     (demo_cm\<lparr>managers := [(''space1'', space_manager 0 ''/space1''),
                           (''space4'', space_manager 3 ''/space4'')]\<rparr>) ''mixed'' [] [] =
     (Inl TypeError, [(''get'', [PStr ''/'']), (''get'', [PStr ''/''])])"
proof -
  let ?cm = "demo_cm\<lparr>managers := [(''space1'', space_manager 0 ''/space1''),
                           (''space4'', space_manager 3 ''/space4'')]\<rparr>"
  have p: "strip_sep ''mixed'' = mixed_path ?cm" "mixed_path ?cm \<noteq> []"
    by (simp_all add: demo_cm_def strip_sep_def lstrip_sep_def rstrip_sep_def)
  have c: "collect_roots demo_env ?cm [] (managers ?cm) [] [] [] =
      ([summary_entry ?cm (''space1'', Inr (demo_root Aware 10)),
        summary_entry ?cm (''space4'', Inr (demo_root Naive 5))],
       [PTime Aware 10, PTime Naive 5],
       [(''get'', [PStr ''/'']), (''get'', [PStr ''/''])])"
    by (simp add: call_backend_api api_names demo_env_def space_manager_def demo_root_def
        mount_entry_def dict_get_def)
  show ?thesis
    unfolding get_bare_prefix [OF p] c by simp
qed

lemma demo_offline:
  "fetch_roots demo_env [] [(''space3'', space_manager 2 ''/space3'')] [] =
     ([(''space3'', Inl (BackendError ''offline''))], [(''get'', [PStr ''/''])])"
  by (simp add: demo_env_def space_manager_def)

theorem root_listing_no_mount_witness:
  "get demo_env (demo_cm\<lparr>managers := []\<rparr>) ''mixed'' [] [] =
     (Inl (ValueError ''max() arg is an empty sequence''), []) \<and>
   get demo_env (demo_cm\<lparr>managers := [(''space3'', space_manager 2 ''/space3'')]\<rparr>) ''mixed'' [] [] =
     (Inl (ValueError ''max() arg is an empty sequence''), [(''get'', [PStr ''/''])])"
proof -
  let ?off = "[(''space3'', space_manager 2 ''/space3'')]"
  have p: "\<And>ms. strip_sep ''mixed'' = mixed_path (demo_cm\<lparr>managers := ms\<rparr>)"
    "\<And>ms. mixed_path (demo_cm\<lparr>managers := ms\<rparr>) \<noteq> []"
    by (simp_all add: demo_cm_def strip_sep_def lstrip_sep_def rstrip_sep_def)
  have m: "\<And>ms. managers (demo_cm\<lparr>managers := ms\<rparr>) = ms" by simp
  have a: "\<forall>r\<in>set (root_fetches demo_env (demo_cm\<lparr>managers := []\<rparr>) [] []). raised r"
    by (simp add: root_fetches_def)
  have b: "\<forall>r\<in>set (root_fetches demo_env (demo_cm\<lparr>managers := ?off\<rparr>) [] []). raised r"
    unfolding root_fetches_def m demo_offline by simp
  have c: "get demo_env (demo_cm\<lparr>managers := []\<rparr>) ''mixed'' [] [] =
     (Inl (ValueError ''max() arg is an empty sequence''), [])"
    using root_listing_no_mount [OF p a] by simp
  have d: "get demo_env (demo_cm\<lparr>managers := ?off\<rparr>) ''mixed'' [] [] =
     (Inl (ValueError ''max() arg is an empty sequence''), [(''get'', [PStr ''/''])])"
    using root_listing_no_mount [OF p b] unfolding m demo_offline by simp
  from c d show ?thesis by (rule conjI)
qed

end
